theory Spec2Isabelle
  imports Main "HOL-Library.Word"
begin

section \<open>libnativeloader: library\_namespaces.cpp\<close>

text \<open>
  A shallow embedding of \<^verbatim>\<open>src/libnativeloader/library_namespaces.cpp\<close>: the
  classification of an APK by its dex path, the preloading of the public libraries, the
  creation of a classloader namespace with its links, and the two lookups in the list of
  namespaces.
\<close>

subsection \<open>Constants\<close>

definition kVendorNamespaceName :: string where
  "kVendorNamespaceName = ''sphal''"

definition kVndkNamespaceName :: string where
  "kVndkNamespaceName = ''vndk''"

definition kRuntimeNamespaceName :: string where
  "kRuntimeNamespaceName = ''runtime''"

definition kClassloaderNamespaceName :: string where
  "kClassloaderNamespaceName = ''classloader-namespace''"

definition kVendorClassloaderNamespaceName :: string where
  "kVendorClassloaderNamespaceName = ''vendor-classloader-namespace''"

definition kWhitelistedDirectories :: string where
  "kWhitelistedDirectories = ''/data:/mnt/expand''"

text \<open>
  \<^verbatim>\<open>LIB\<close> is a macro of \<^verbatim>\<open>utils.h\<close> (the library directory of the build);
  the two paths take it as a parameter.
\<close>

definition kVendorLibPath :: "string \<Rightarrow> string" where
  "kVendorLibPath LIB = ''/vendor/'' @ LIB"

definition kProductLibPath :: "string \<Rightarrow> string" where
  "kProductLibPath LIB = ''/product/'' @ LIB @ '':/system/product/'' @ LIB"

subsection \<open>The two dex path patterns\<close>

text \<open>
  The fragment of the regular expressions that the two patterns are written in: the
  assertion \<^verbatim>\<open>^\<close>, a literal, an alternative \<^verbatim>\<open>a|b\<close>, an optional group
  \<^verbatim>\<open>(a)?\<close> and a sequence.
\<close>

datatype regex = Bol | Lit string | Alt regex regex | Opt regex | Seq regex regex

fun starts_with :: "string \<Rightarrow> string \<Rightarrow> bool" where
  "starts_with [] s = True"
| "starts_with (p # ps) [] = False"
| "starts_with (p # ps) (c # cs) = (p = c \<and> starts_with ps cs)"

text \<open>
  \<open>matches r at_start s\<close> lists what is left of \<open>s\<close> after each way in which \<open>r\<close>
  matches at the front of \<open>s\<close>; \<open>at_start\<close> tells whether the front of \<open>s\<close> is the
  beginning of the whole input, where \<^verbatim>\<open>^\<close> matches.
\<close>

fun matches :: "regex \<Rightarrow> bool \<Rightarrow> string \<Rightarrow> string list" where
  "matches Bol at_start s = (if at_start then [s] else [])"
| "matches (Lit p) at_start s = (if starts_with p s then [drop (length p) s] else [])"
| "matches (Alt r1 r2) at_start s = matches r1 at_start s @ matches r2 at_start s"
| "matches (Opt r) at_start s = matches r at_start s @ [s]"
| "matches (Seq r1 r2) at_start s =
     concat (map (\<lambda>rest. matches r2 (at_start \<and> length rest = length s) rest)
                 (matches r1 at_start s))"

fun search_from :: "regex \<Rightarrow> bool \<Rightarrow> string \<Rightarrow> bool" where
  "search_from r at_start [] = (case matches r at_start [] of [] \<Rightarrow> False | _ # _ \<Rightarrow> True)"
| "search_from r at_start (c # cs) =
     (case matches r at_start (c # cs) of
        [] \<Rightarrow> search_from r False cs
      | _ # _ \<Rightarrow> True)"

text \<open>\<^verbatim>\<open>std::regex_search\<close>: the pattern matches somewhere in the string.\<close>

definition regex_search :: "string \<Rightarrow> regex \<Rightarrow> bool" where
  "regex_search s r = search_from r True s"

text \<open>\<^verbatim>\<open>(^|:)/vendor/\<close>\<close>

definition kVendorDexPathRegex :: regex where
  "kVendorDexPathRegex = Seq (Alt Bol (Lit '':'')) (Lit ''/vendor/'')"

text \<open>\<^verbatim>\<open>(^|:)(/system)?/product/\<close>\<close>

definition kProductDexPathRegex :: regex where
  "kProductDexPathRegex =
     Seq (Alt Bol (Lit '':'')) (Seq (Opt (Lit ''/system'')) (Lit ''/product/''))"

subsection \<open>The origin of an APK\<close>

datatype ApkOrigin = APK_ORIGIN_DEFAULT | APK_ORIGIN_VENDOR | APK_ORIGIN_PRODUCT

text \<open>
  The three \<^verbatim>\<open>LOG_ALWAYS_FATAL_IF\<close> of the file, each of which ends the process:
  a dex path of both partitions, a public library that does not preload, and a class
  loader that has a namespace already.
\<close>

datatype fatal =
    DexPathVendorAndProduct string
  | ErrorPreloadingPublicLibrary string
  | AlreadyANamespace

text \<open>A null \<^verbatim>\<open>jstring\<close> is \<open>None\<close>.\<close>

definition GetApkOriginFromDexPath :: "string option \<Rightarrow> fatal + ApkOrigin" where
  "GetApkOriginFromDexPath dex_path =
     (case dex_path of
        None \<Rightarrow> Inr APK_ORIGIN_DEFAULT
      | Some dex_path_utf_chars \<Rightarrow>
          (let apk_origin =
                 (if regex_search dex_path_utf_chars kVendorDexPathRegex
                  then APK_ORIGIN_VENDOR else APK_ORIGIN_DEFAULT)
           in if regex_search dex_path_utf_chars kProductDexPathRegex
              then (if apk_origin = APK_ORIGIN_VENDOR
                    then Inl (DexPathVendorAndProduct dex_path_utf_chars)
                    else Inr APK_ORIGIN_PRODUCT)
              else Inr apk_origin))"

subsection \<open>What the file calls and does not define\<close>

text \<open>
  A \<^verbatim>\<open>jobject\<close> is the identity of a Java object; \<^verbatim>\<open>IsSameObject\<close> is
  equality of identities, and the weak global reference that the list of namespaces keeps
  is modelled by the identity it refers to.
\<close>

type_synonym jobject = nat

definition IsSameObject :: "jobject \<Rightarrow> jobject \<Rightarrow> bool" where
  "IsSameObject ref1 ref2 = (ref1 = ref2)"

text \<open>
  The library lists of \<^verbatim>\<open>public_libraries.h\<close>, the dynamic linker, the native
  bridge, the JNI call \<^verbatim>\<open>getParent\<close>, \<^verbatim>\<open>android::base::Split\<close> and the class
  \<^verbatim>\<open>NativeLoaderNamespace\<close> (the type \<open>'ns\<close>) are not part of the file: they are
  the fields of a record that every function below takes as its first argument. A null
  \<^verbatim>\<open>const char*\<close> argument or a null \<^verbatim>\<open>jobject\<close> result is \<open>None\<close>;
  \<open>dlopen\<close> tells whether the handle is not null.
\<close>

record 'ns host =
  LIB :: string
  default_public_libraries :: string
  llndk_libraries :: string
  extended_public_libraries :: string
  runtime_public_libraries :: string
  vndksp_libraries :: string
  vendor_public_libraries :: string
  Split :: "string \<Rightarrow> string \<Rightarrow> string list"
  dlopen :: "string \<Rightarrow> bool"
  android_init_anonymous_namespace :: "string \<Rightarrow> string option \<Rightarrow> bool"
  NativeBridgeIsPathSupported :: "string \<Rightarrow> bool"
  NativeBridgeInitialized :: bool
  NativeBridgeInitAnonymousNamespace :: "string \<Rightarrow> string option \<Rightarrow> bool"
  GetParentClassLoader :: "jobject \<Rightarrow> jobject option"
  NativeLoaderNamespace_Create ::
    "string \<Rightarrow> string \<Rightarrow> string \<Rightarrow> 'ns option \<Rightarrow> bool \<Rightarrow> bool \<Rightarrow> 'ns"
  IsNil :: "'ns \<Rightarrow> bool"
  IsBridged :: "'ns \<Rightarrow> bool"
  Link :: "'ns \<Rightarrow> 'ns \<Rightarrow> string \<Rightarrow> bool"
  GetPlatformNamespace :: "bool \<Rightarrow> 'ns"
  GetExportedNamespace :: "string \<Rightarrow> bool \<Rightarrow> 'ns"

text \<open>
  The text written to \<^verbatim>\<open>*error_msg\<close> is whatever one of three calls returns at
  that moment; the model records which call it was.
\<close>

datatype 'ns error_msg = dlerror | NativeBridgeGetError | GetError 'ns

text \<open>
  The calls that change the linker or ask it to: each function below appends the ones
  it makes, in order, to the field \<open>calls\<close> of the state.
\<close>

datatype 'ns call =
    CallDlopen string
  | CallInitAnonymous string "string option"
  | CallBridgeInitAnonymous string "string option"
  | CallCreate string string string "'ns option" bool bool
  | CallLink 'ns 'ns string

text \<open>
  The two members of \<^verbatim>\<open>LibraryNamespaces\<close>, \<^verbatim>\<open>initialized_\<close> and
  \<^verbatim>\<open>namespaces_\<close>, and the calls made so far. A pointer
  to the namespace of an element of \<open>namespaces\<close> is modelled by that namespace.
\<close>

record 'ns LibraryNamespaces =
  initialized :: bool
  namespaces :: "(jobject \<times> 'ns) list"
  calls :: "'ns call list"

subsection \<open>Initialize\<close>

text \<open>The loop over the names; a name that does not load ends the process.\<close>

fun preload :: "'ns host \<Rightarrow> string list \<Rightarrow> 'ns call list \<Rightarrow> fatal option \<times> 'ns call list" where
  "preload h [] cs = (None, cs)"
| "preload h (soname # sonames) cs =
     (if dlopen h soname then preload h sonames (cs @ [CallDlopen soname])
      else (Some (ErrorPreloadingPublicLibrary soname), cs @ [CallDlopen soname]))"

definition Initialize :: "'ns host \<Rightarrow> 'ns LibraryNamespaces \<Rightarrow> fatal option \<times> 'ns LibraryNamespaces" where
  "Initialize h st =
     (if initialized st then (None, st)
      else (case preload h (Split h (default_public_libraries h) '':'') (calls st) of
              (r, cs) \<Rightarrow> (r, st\<lparr>calls := cs\<rparr>)))"

subsection \<open>InitPublicNamespace\<close>

text \<open>
  The result is \<open>None\<close> when the function returns true, and the error it wrote to
  \<^verbatim>\<open>*error_msg\<close> when it returns false (it writes one on each such path).
\<close>

definition InitPublicNamespace ::
  "'ns host \<Rightarrow> 'ns LibraryNamespaces \<Rightarrow> string \<Rightarrow> 'ns error_msg option \<times> 'ns LibraryNamespaces" where
  "InitPublicNamespace h st library_path =
     (let is_native_bridge = NativeBridgeIsPathSupported h library_path;
          path1 = (if is_native_bridge then None else Some library_path);
          st1 = st\<lparr>initialized :=
                      android_init_anonymous_namespace h (default_public_libraries h) path1,
                    calls := calls st @ [CallInitAnonymous (default_public_libraries h) path1]\<rparr>
      in if \<not> initialized st1 then (Some dlerror, st1)
         else if NativeBridgeInitialized h then
           (let path2 = (if is_native_bridge then Some library_path else None);
                st2 = st1\<lparr>initialized :=
                             NativeBridgeInitAnonymousNamespace h (default_public_libraries h) path2,
                           calls := calls st1 @
                             [CallBridgeInitAnonymous (default_public_libraries h) path2]\<rparr>
            in if \<not> initialized st2 then (Some NativeBridgeGetError, st2) else (None, st2))
         else (None, st1))"

subsection \<open>The two lookups\<close>

definition FindNamespaceByClassLoader :: "'ns LibraryNamespaces \<Rightarrow> jobject \<Rightarrow> 'ns option" where
  "FindNamespaceByClassLoader st class_loader =
     (case List.find (\<lambda>v. IsSameObject (fst v) class_loader) (namespaces st) of
        None \<Rightarrow> None
      | Some it \<Rightarrow> Some (snd it))"

text \<open>
  The loop of \<^verbatim>\<open>FindParentNamespaceByClassLoader\<close> ends when \<^verbatim>\<open>getParent\<close>
  returns null or a parent has a namespace; on a chain of parents that does neither it
  does not return, which is the value \<open>None\<close>.
\<close>

partial_function (option) parent_loop ::
  "'ns host \<Rightarrow> 'ns LibraryNamespaces \<Rightarrow> jobject option \<Rightarrow> 'ns option option" where
  "parent_loop h st parent_class_loader =
     (case parent_class_loader of
        None \<Rightarrow> Some None
      | Some p \<Rightarrow>
          (case FindNamespaceByClassLoader st p of
             Some ns \<Rightarrow> Some (Some ns)
           | None \<Rightarrow> parent_loop h st (GetParentClassLoader h p)))"

declare parent_loop.simps [code]

definition FindParentNamespaceByClassLoader ::
  "'ns host \<Rightarrow> 'ns LibraryNamespaces \<Rightarrow> jobject \<Rightarrow> 'ns option option" where
  "FindParentNamespaceByClassLoader h st class_loader =
     parent_loop h st (GetParentClassLoader h class_loader)"

subsection \<open>Create\<close>

text \<open>
  The values that the locals \<^verbatim>\<open>library_path\<close>, \<^verbatim>\<open>permitted_path\<close>,
  \<^verbatim>\<open>system_exposed_libraries\<close>, \<^verbatim>\<open>namespace_name\<close> and
  \<^verbatim>\<open>unbundled_vendor_or_product_app\<close> have when the namespace is created.
\<close>

record policy =
  p_library_path :: string
  p_permitted_path :: string
  p_system_exposed_libraries :: string
  p_namespace_name :: string
  p_unbundled_vendor_or_product_app :: bool

text \<open>
  The branch on the origin of the APK. \<^verbatim>\<open>target_sdk_version\<close> is a
  \<^verbatim>\<open>uint32_t\<close>.
\<close>

definition compute_policy ::
  "'ns host \<Rightarrow> ApkOrigin \<Rightarrow> 32 word \<Rightarrow> bool \<Rightarrow> string \<Rightarrow> string \<Rightarrow> policy" where
  "compute_policy h apk_origin target_sdk_version is_shared library_path permitted_path =
     (if (apk_origin = APK_ORIGIN_VENDOR \<or>
          (apk_origin = APK_ORIGIN_PRODUCT \<and> 29 < target_sdk_version)) \<and> \<not> is_shared
      then
        (let origin_lib_path =
               (case apk_origin of
                  APK_ORIGIN_VENDOR \<Rightarrow> kVendorLibPath (LIB h)
                | APK_ORIGIN_PRODUCT \<Rightarrow> kProductLibPath (LIB h)
                | APK_ORIGIN_DEFAULT \<Rightarrow> [])
         in \<lparr>p_library_path = library_path @ '':'' @ origin_lib_path,
             p_permitted_path = permitted_path @ '':'' @ origin_lib_path,
             p_system_exposed_libraries =
               default_public_libraries h @ '':'' @ llndk_libraries h,
             p_namespace_name = kVendorClassloaderNamespaceName,
             p_unbundled_vendor_or_product_app = True\<rparr>)
      else
        \<lparr>p_library_path = library_path,
         p_permitted_path = permitted_path,
         p_system_exposed_libraries =
           (if extended_public_libraries h \<noteq> []
            then default_public_libraries h @ '':'' @ extended_public_libraries h
            else default_public_libraries h),
         p_namespace_name = kClassloaderNamespaceName,
         p_unbundled_vendor_or_product_app = False\<rparr>)"

text \<open>
  The four links, each from the calls made so far to the error that ends
  \<^verbatim>\<open>Create\<close> (if the link fails) and the calls made then.
\<close>

definition link_platform ::
  "'ns host \<Rightarrow> 'ns \<Rightarrow> bool \<Rightarrow> string \<Rightarrow> 'ns call list \<Rightarrow> 'ns error_msg option \<times> 'ns call list" where
  "link_platform h app_ns is_bridged system_exposed_libraries cs =
     (let platform_ns = GetPlatformNamespace h is_bridged
      in if \<not> Link h app_ns platform_ns system_exposed_libraries
         then (Some (GetError app_ns), cs @ [CallLink app_ns platform_ns system_exposed_libraries])
         else (None, cs @ [CallLink app_ns platform_ns system_exposed_libraries]))"

definition link_runtime ::
  "'ns host \<Rightarrow> 'ns \<Rightarrow> bool \<Rightarrow> 'ns call list \<Rightarrow> 'ns error_msg option \<times> 'ns call list" where
  "link_runtime h app_ns is_bridged cs =
     (let runtime_ns = GetExportedNamespace h kRuntimeNamespaceName is_bridged
      in if \<not> IsNil h runtime_ns
         then (if \<not> Link h app_ns runtime_ns (runtime_public_libraries h)
               then (Some (GetError app_ns),
                     cs @ [CallLink app_ns runtime_ns (runtime_public_libraries h)])
               else (None, cs @ [CallLink app_ns runtime_ns (runtime_public_libraries h)]))
         else (None, cs))"

definition link_vndk ::
  "'ns host \<Rightarrow> 'ns \<Rightarrow> bool \<Rightarrow> bool \<Rightarrow> 'ns call list \<Rightarrow> 'ns error_msg option \<times> 'ns call list" where
  "link_vndk h app_ns is_bridged unbundled_vendor_or_product_app cs =
     (if unbundled_vendor_or_product_app \<and> vndksp_libraries h \<noteq> []
      then
        (let vndk_ns = GetExportedNamespace h kVndkNamespaceName is_bridged
         in if IsNil h vndk_ns then (None, cs)
            else if \<not> Link h app_ns vndk_ns (vndksp_libraries h)
            then (Some (GetError app_ns), cs @ [CallLink app_ns vndk_ns (vndksp_libraries h)])
            else (None, cs @ [CallLink app_ns vndk_ns (vndksp_libraries h)]))
      else (None, cs))"

definition link_vendor ::
  "'ns host \<Rightarrow> 'ns \<Rightarrow> bool \<Rightarrow> 'ns call list \<Rightarrow> 'ns error_msg option \<times> 'ns call list" where
  "link_vendor h app_ns is_bridged cs =
     (if vendor_public_libraries h \<noteq> []
      then
        (let vendor_ns = GetExportedNamespace h kVendorNamespaceName is_bridged
         in if \<not> Link h app_ns vendor_ns (vendor_public_libraries h)
            then (Some dlerror, cs @ [CallLink app_ns vendor_ns (vendor_public_libraries h)])
            else (None, cs @ [CallLink app_ns vendor_ns (vendor_public_libraries h)]))
      else (None, cs))"

text \<open>A step runs only when the steps before it have not returned.\<close>

definition and_then ::
  "'e option \<times> 'c \<Rightarrow> ('c \<Rightarrow> 'e option \<times> 'c) \<Rightarrow> 'e option \<times> 'c" where
  "and_then r step = (case r of (None, cs) \<Rightarrow> step cs | (Some e, cs) \<Rightarrow> (Some e, cs))"

definition link_all ::
  "'ns host \<Rightarrow> 'ns \<Rightarrow> policy \<Rightarrow> 'ns call list \<Rightarrow> 'ns error_msg option \<times> 'ns call list" where
  "link_all h app_ns pol cs =
     (let is_bridged = IsBridged h app_ns
      in and_then
           (and_then
              (and_then (link_platform h app_ns is_bridged (p_system_exposed_libraries pol) cs)
                        (link_runtime h app_ns is_bridged))
              (link_vndk h app_ns is_bridged (p_unbundled_vendor_or_product_app pol)))
           (link_vendor h app_ns is_bridged))"

text \<open>
  What a call of \<^verbatim>\<open>Create\<close> ends with: the process is ended, a null pointer is
  returned with \<^verbatim>\<open>*error_msg\<close> written, or a pointer to the namespace of the new
  last element of the list is returned.
\<close>

datatype 'ns outcome = Aborted fatal | Failed "'ns error_msg" | Created 'ns

text \<open>From the creation of the namespace to the end of the function.\<close>

definition create_and_link ::
  "'ns host \<Rightarrow> 'ns LibraryNamespaces \<Rightarrow> 32 word \<Rightarrow> jobject \<Rightarrow> bool \<Rightarrow> policy \<Rightarrow> 'ns option \<Rightarrow>
   'ns outcome \<times> 'ns LibraryNamespaces" where
  "create_and_link h st target_sdk_version class_loader is_shared pol parent_ns =
     (let app_ns = NativeLoaderNamespace_Create h (p_namespace_name pol) (p_library_path pol)
                     (p_permitted_path pol) parent_ns is_shared (target_sdk_version < 24);
          cs = calls st @ [CallCreate (p_namespace_name pol) (p_library_path pol)
                             (p_permitted_path pol) parent_ns is_shared (target_sdk_version < 24)]
      in if IsNil h app_ns then (Failed (GetError app_ns), st\<lparr>calls := cs\<rparr>)
         else (case link_all h app_ns pol cs of
                 (Some e, cs') \<Rightarrow> (Failed e, st\<lparr>calls := cs'\<rparr>)
               | (None, cs') \<Rightarrow>
                   (Created app_ns,
                    st\<lparr>namespaces := namespaces st @ [(class_loader, app_ns)], calls := cs'\<rparr>)))"

text \<open>The anonymous namespace is initialized with the first library path that is not empty.\<close>

definition init_step ::
  "'ns host \<Rightarrow> 'ns LibraryNamespaces \<Rightarrow> string \<Rightarrow> 'ns error_msg option \<times> 'ns LibraryNamespaces" where
  "init_step h st library_path =
     (if library_path \<noteq> [] \<and> \<not> initialized st then InitPublicNamespace h st library_path
      else (None, st))"

definition resolve_library_path :: "string option \<Rightarrow> string" where
  "resolve_library_path java_library_path =
     (case java_library_path of None \<Rightarrow> [] | Some library_path_utf_chars \<Rightarrow> library_path_utf_chars)"

definition resolve_permitted_path :: "string option \<Rightarrow> string" where
  "resolve_permitted_path java_permitted_path =
     (case java_permitted_path of
        None \<Rightarrow> kWhitelistedDirectories
      | Some path \<Rightarrow>
          (if path \<noteq> [] then kWhitelistedDirectories @ '':'' @ path
           else kWhitelistedDirectories))"

text \<open>
  \<open>None\<close> is a call that does not return (the walk up the parents does not end);
  otherwise the result is how the call ends and the state it leaves.
\<close>

definition Create ::
  "'ns host \<Rightarrow> 'ns LibraryNamespaces \<Rightarrow> 32 word \<Rightarrow> jobject \<Rightarrow> bool \<Rightarrow>
   string option \<Rightarrow> string option \<Rightarrow> string option \<Rightarrow>
   ('ns outcome \<times> 'ns LibraryNamespaces) option" where
  "Create h st target_sdk_version class_loader is_shared dex_path java_library_path
     java_permitted_path =
     (let library_path = resolve_library_path java_library_path
      in case GetApkOriginFromDexPath dex_path of
           Inl f \<Rightarrow> Some (Aborted f, st)
         | Inr apk_origin \<Rightarrow>
             (let permitted_path = resolve_permitted_path java_permitted_path
              in case init_step h st library_path of
                   (Some e, st1) \<Rightarrow> Some (Failed e, st1)
                 | (None, st1) \<Rightarrow>
                     (case FindNamespaceByClassLoader st1 class_loader of
                        Some found \<Rightarrow> Some (Aborted AlreadyANamespace, st1)
                      | None \<Rightarrow>
                          (let pol = compute_policy h apk_origin target_sdk_version is_shared
                                       library_path permitted_path
                           in case FindParentNamespaceByClassLoader h st1 class_loader of
                                None \<Rightarrow> None
                              | Some parent_ns \<Rightarrow>
                                  Some (create_and_link h st1 target_sdk_version class_loader
                                          is_shared pol parent_ns)))))"

subsection \<open>Notions that the statements use\<close>

text \<open>\<open>found_in p s\<close>: the string \<open>p\<close> occurs somewhere in \<open>s\<close>.\<close>

fun found_in :: "string \<Rightarrow> string \<Rightarrow> bool" where
  "found_in p [] = starts_with p []"
| "found_in p (c # cs) = (starts_with p (c # cs) \<or> found_in p cs)"

text \<open>
  \<open>ancestor_chain h c as\<close>: the parents of the class loader \<open>c\<close>, from the nearest
  one up to the one whose parent is null, are the list \<open>as\<close>.
\<close>

fun ancestor_chain :: "'ns host \<Rightarrow> jobject \<Rightarrow> jobject list \<Rightarrow> bool" where
  "ancestor_chain h c [] = (GetParentClassLoader h c = None)"
| "ancestor_chain h c (a # as) = (GetParentClassLoader h c = Some a \<and> ancestor_chain h a as)"

text \<open>What the host answered to a call that a function made.\<close>

fun call_succeeded :: "'ns host \<Rightarrow> 'ns call \<Rightarrow> bool" where
  "call_succeeded h (CallDlopen soname) = dlopen h soname"
| "call_succeeded h (CallInitAnonymous libs path) = android_init_anonymous_namespace h libs path"
| "call_succeeded h (CallBridgeInitAnonymous libs path) =
     NativeBridgeInitAnonymousNamespace h libs path"
| "call_succeeded h (CallCreate name search_path permitted parent is_shared greylist) =
     (\<not> IsNil h (NativeLoaderNamespace_Create h name search_path permitted parent is_shared greylist))"
| "call_succeeded h (CallLink ns target libs) = Link h ns target libs"

subsection \<open>A host and a state for the examples\<close>

text \<open>
  The value of \<open>Split\<close> in the examples: the fields of a string between the
  delimiters.
\<close>

fun fields :: "string \<Rightarrow> string \<Rightarrow> string list" where
  "fields delimiters [] = [[]]"
| "fields delimiters (c # cs) =
     (if c \<in> set delimiters then [] # fields delimiters cs
      else (case fields delimiters cs of [] \<Rightarrow> [[c]] | f # fs \<Rightarrow> (c # f) # fs))"

text \<open>
  Every call succeeds; there is a runtime namespace and neither a vndk nor a vendor
  namespace (the empty name is the nil namespace); the parent of the class loader \<open>n + 1\<close>
  is \<open>n\<close>, and \<open>0\<close> has none.
\<close>

definition host0 :: "string host" where
  "host0 =
     \<lparr>LIB = ''lib64'',
      default_public_libraries = ''libc.so:libm.so'',
      llndk_libraries = ''libvndksupport.so'',
      extended_public_libraries = ''libext.so'',
      runtime_public_libraries = ''libicuuc.so'',
      vndksp_libraries = ''libcutils.so'',
      vendor_public_libraries = ''libvendor.so'',
      Split = (\<lambda>s delimiters. fields delimiters s),
      dlopen = (\<lambda>soname. True),
      android_init_anonymous_namespace = (\<lambda>libs path. True),
      NativeBridgeIsPathSupported = (\<lambda>path. False),
      NativeBridgeInitialized = False,
      NativeBridgeInitAnonymousNamespace = (\<lambda>libs path. True),
      GetParentClassLoader = (\<lambda>c. if c = 0 then None else Some (c - 1)),
      NativeLoaderNamespace_Create =
        (\<lambda>name search_path permitted parent is_shared greylist. name),
      IsNil = (\<lambda>ns. ns = []),
      IsBridged = (\<lambda>ns. False),
      Link = (\<lambda>ns target libs. True),
      GetPlatformNamespace = (\<lambda>is_bridged. ''platform''),
      GetExportedNamespace =
        (\<lambda>name is_bridged. if name = ''runtime'' then ''runtime'' else [])\<rparr>"

definition fresh :: "string LibraryNamespaces" where
  "fresh = \<lparr>initialized = False, namespaces = [], calls = []\<rparr>"

text \<open>The same host, where the anonymous namespace cannot be initialized.\<close>

definition host_init_fails :: "string host" where
  "host_init_fails = host0\<lparr>android_init_anonymous_namespace := (\<lambda>libs path. False)\<rparr>"

text \<open>The same host, with no vendor public libraries.\<close>

definition host_no_vendor_libraries :: "string host" where
  "host_no_vendor_libraries = host0\<lparr>vendor_public_libraries := []\<rparr>"

text \<open>The same host, where a default public library is also the LLNDK library.\<close>

definition host_llndk_public :: "string host" where
  "host_llndk_public = host0\<lparr>llndk_libraries := ''libc.so''\<rparr>"

text \<open>
  The state after \<^verbatim>\<open>Create\<close> for the class loader \<open>0\<close> with no library path, and
  the state after the anonymous namespace is initialized.
\<close>

definition registered :: "string LibraryNamespaces" where
  "registered =
     \<lparr>initialized = False, namespaces = [(0, ''classloader-namespace'')],
      calls = [CallCreate ''classloader-namespace'' [] ''/data:/mnt/expand'' None False False,
               CallLink ''classloader-namespace'' ''platform'' ''libc.so:libm.so:libext.so'',
               CallLink ''classloader-namespace'' ''runtime'' ''libicuuc.so'',
               CallLink ''classloader-namespace'' [] ''libvendor.so'']\<rparr>"

definition bootstrapped :: "string LibraryNamespaces" where
  "bootstrapped =
     \<lparr>initialized = True, namespaces = [],
      calls = [CallInitAnonymous ''libc.so:libm.so'' (Some ''/vendor/app/lib'')]\<rparr>"


section \<open>Properties\<close>

subsection \<open>Evaluation\<close>

lemma parent_loop_None: "parent_loop h st None = Some None"
  by (subst parent_loop.simps) simp

lemma parent_loop_Some:
  "parent_loop h st (Some p) =
     (case FindNamespaceByClassLoader st p of
        Some ns \<Rightarrow> Some (Some ns)
      | None \<Rightarrow> parent_loop h st (GetParentClassLoader h p))"
  by (subst parent_loop.simps) simp

lemmas model_defs =
  Create_def GetApkOriginFromDexPath_def regex_search_def kVendorDexPathRegex_def
  kProductDexPathRegex_def resolve_library_path_def resolve_permitted_path_def init_step_def
  InitPublicNamespace_def FindNamespaceByClassLoader_def IsSameObject_def
  FindParentNamespaceByClassLoader_def parent_loop_None parent_loop_Some compute_policy_def
  create_and_link_def link_all_def and_then_def link_platform_def link_runtime_def
  link_vndk_def link_vendor_def kVendorLibPath_def kProductLibPath_def
  kWhitelistedDirectories_def kClassloaderNamespaceName_def
  kVendorClassloaderNamespaceName_def kRuntimeNamespaceName_def kVndkNamespaceName_def
  kVendorNamespaceName_def Initialize_def Let_def

lemmas example_defs = host0_def fresh_def host_init_fails_def host_no_vendor_libraries_def
  host_llndk_public_def registered_def bootstrapped_def

subsection \<open>The two patterns\<close>

lemma matches_vendor:
  "(matches kVendorDexPathRegex b s \<noteq> []) = ((b \<and> starts_with ''/vendor/'' s) \<or> starts_with '':/vendor/'' s)"
  by (cases s) (auto simp: kVendorDexPathRegex_def)

lemma search_vendor:
  "search_from kVendorDexPathRegex b s = ((b \<and> starts_with ''/vendor/'' s) \<or> found_in '':/vendor/'' s)"
proof (induction s arbitrary: b)
  case Nil
  then show ?case by (simp add: kVendorDexPathRegex_def)
next
  case (Cons c cs)
  have "search_from kVendorDexPathRegex b (c # cs) =
        (matches kVendorDexPathRegex b (c # cs) \<noteq> [] \<or> search_from kVendorDexPathRegex False cs)"
    by (simp split: list.splits)
  then show ?case using Cons by (simp only: matches_vendor found_in.simps) auto
qed

lemma starts_with_append:
  "starts_with (p @ q) s = (starts_with p s \<and> starts_with q (drop (length p) s))"
  by (induction p s rule: starts_with.induct) auto

lemma matches_opt_system:
  "(matches (Seq (Opt (Lit ''/system'')) (Lit ''/product/'')) b s \<noteq> []) =
     (starts_with ''/product/'' s \<or> starts_with ''/system/product/'' s)"
proof -
  have "starts_with (''/system'' @ ''/product/'') s =
          (starts_with ''/system'' s \<and> starts_with ''/product/'' (drop (length ''/system'') s))"
    by (rule starts_with_append)
  then show ?thesis by auto
qed

lemma matches_product:
  "(matches kProductDexPathRegex b s \<noteq> []) =
     ((b \<and> (starts_with ''/product/'' s \<or> starts_with ''/system/product/'' s)) \<or>
      starts_with '':/product/'' s \<or> starts_with '':/system/product/'' s)"
proof -
  let ?r = "Seq (Opt (Lit ''/system'')) (Lit ''/product/'')"
  have m: "matches kProductDexPathRegex b s =
             (if b then matches ?r True s else []) @
             (if starts_with '':'' s then matches ?r False (drop 1 s) else [])"
    by (cases s) (simp_all add: kProductDexPathRegex_def)
  have c1: "starts_with '':/product/'' s = (starts_with '':'' s \<and> starts_with ''/product/'' (drop 1 s))"
    by (cases s) simp_all
  have c2: "starts_with '':/system/product/'' s =
              (starts_with '':'' s \<and> starts_with ''/system/product/'' (drop 1 s))"
    by (cases s) simp_all
  have n: "(xs @ ys \<noteq> []) = (xs \<noteq> [] \<or> ys \<noteq> [])" for xs ys :: "string list"
    by simp
  show ?thesis
    unfolding m c1 c2 n
    using matches_opt_system [of True s] matches_opt_system [of False "drop 1 s"]
    by (cases b; cases "starts_with '':'' s") (simp_all del: matches.simps starts_with.simps)
qed

lemma search_product:
  "search_from kProductDexPathRegex b s =
     ((b \<and> (starts_with ''/product/'' s \<or> starts_with ''/system/product/'' s)) \<or>
      found_in '':/product/'' s \<or> found_in '':/system/product/'' s)"
proof (induction s arbitrary: b)
  case Nil
  then show ?case by (simp add: kProductDexPathRegex_def)
next
  case (Cons c cs)
  have "search_from kProductDexPathRegex b (c # cs) =
        (matches kProductDexPathRegex b (c # cs) \<noteq> [] \<or> search_from kProductDexPathRegex False cs)"
    by (simp split: list.splits)
  then show ?case using Cons by (simp only: matches_product found_in.simps) auto
qed

lemma vendor_pattern_iff:
  "regex_search s kVendorDexPathRegex =
     (starts_with ''/vendor/'' s \<or> found_in '':/vendor/'' s)"
  by (simp add: regex_search_def search_vendor)

lemma product_pattern_iff:
  "regex_search s kProductDexPathRegex =
     (starts_with ''/product/'' s \<or> starts_with ''/system/product/'' s \<or>
      found_in '':/product/'' s \<or> found_in '':/system/product/'' s)"
  by (simp add: regex_search_def search_product)

subsection \<open>The steps and the calls they make\<close>

lemma init_step_namespaces:
  "init_step h st library_path = (r, st1) \<Longrightarrow> namespaces st1 = namespaces st"
  by (auto simp: init_step_def InitPublicNamespace_def Let_def split: if_splits)

lemma init_step_initialized:
  "initialized st \<Longrightarrow> init_step h st library_path = (None, st)"
  by (simp add: init_step_def)

lemma init_step_keeps_initialized:
  "init_step h st library_path = (r, st1) \<Longrightarrow> initialized st \<Longrightarrow> initialized st1"
  by (simp add: init_step_def)

lemma init_step_calls:
  "init_step h st library_path = (r, st1) \<Longrightarrow>
     \<exists>xs. calls st1 = calls st @ xs \<and> (r = None) = list_all (call_succeeded h) xs"
  by (auto simp: init_step_def InitPublicNamespace_def Let_def split: if_splits)

lemma link_platform_calls:
  "\<exists>xs. snd (link_platform h a b libs cs) = cs @ xs \<and>
        (fst (link_platform h a b libs cs) = None) = list_all (call_succeeded h) xs"
  by (simp add: link_platform_def Let_def)

lemma link_runtime_calls:
  "\<exists>xs. snd (link_runtime h a b cs) = cs @ xs \<and>
        (fst (link_runtime h a b cs) = None) = list_all (call_succeeded h) xs"
  by (simp add: link_runtime_def Let_def)

lemma link_vndk_calls:
  "\<exists>xs. snd (link_vndk h a b u cs) = cs @ xs \<and>
        (fst (link_vndk h a b u cs) = None) = list_all (call_succeeded h) xs"
  by (simp add: link_vndk_def Let_def)

lemma link_vendor_calls:
  "\<exists>xs. snd (link_vendor h a b cs) = cs @ xs \<and>
        (fst (link_vendor h a b cs) = None) = list_all (call_succeeded h) xs"
  by (simp add: link_vendor_def Let_def)

lemma and_then_calls:
  assumes r: "\<exists>xs. snd r = cs @ xs \<and> (fst r = None) = list_all P xs"
    and step: "\<And>cs'. \<exists>ys. snd (step cs') = cs' @ ys \<and> (fst (step cs') = None) = list_all P ys"
  shows "\<exists>zs. snd (and_then r step) = cs @ zs \<and> (fst (and_then r step) = None) = list_all P zs"
proof -
  from r obtain xs where x: "snd r = cs @ xs \<and> (fst r = None) = list_all P xs" ..
  then have xs: "snd r = cs @ xs" "(fst r = None) = list_all P xs" by simp_all
  show ?thesis
  proof (cases "fst r")
    case None
    from step [of "cs @ xs"] obtain ys where
      y: "snd (step (cs @ xs)) = (cs @ xs) @ ys \<and> (fst (step (cs @ xs)) = None) = list_all P ys" ..
    then have ys: "snd (step (cs @ xs)) = (cs @ xs) @ ys" "(fst (step (cs @ xs)) = None) = list_all P ys"
      by simp_all
    have a: "and_then r step = step (cs @ xs)"
      using None xs(1) by (cases r) (simp add: and_then_def)
    have "snd (and_then r step) = cs @ (xs @ ys)" unfolding a using ys(1) by simp
    moreover have "(fst (and_then r step) = None) = list_all P (xs @ ys)"
      unfolding a using ys(2) xs(2) None by simp
    ultimately have "snd (and_then r step) = cs @ (xs @ ys) \<and> (fst (and_then r step) = None) = list_all P (xs @ ys)"
      by (rule conjI)
    then show ?thesis by (rule exI)
  next
    case (Some e)
    have a: "and_then r step = r"
      using Some by (cases r) (simp add: and_then_def)
    show ?thesis unfolding a using r .
  qed
qed

lemma link_all_calls:
  "\<exists>xs. snd (link_all h a pol cs) = cs @ xs \<and>
        (fst (link_all h a pol cs) = None) = list_all (call_succeeded h) xs"
proof -
  let ?b = "IsBridged h a"
  let ?r1 = "link_platform h a ?b (p_system_exposed_libraries pol) cs"
  let ?r2 = "and_then ?r1 (link_runtime h a ?b)"
  let ?r3 = "and_then ?r2 (link_vndk h a ?b (p_unbundled_vendor_or_product_app pol))"
  have 1: "\<exists>xs. snd ?r1 = cs @ xs \<and> (fst ?r1 = None) = list_all (call_succeeded h) xs"
    by (rule link_platform_calls)
  have 2: "\<exists>xs. snd ?r2 = cs @ xs \<and> (fst ?r2 = None) = list_all (call_succeeded h) xs"
    using 1 by (rule and_then_calls) (rule link_runtime_calls)
  have 3: "\<exists>xs. snd ?r3 = cs @ xs \<and> (fst ?r3 = None) = list_all (call_succeeded h) xs"
    using 2 by (rule and_then_calls) (rule link_vndk_calls)
  have "\<exists>xs. snd (and_then ?r3 (link_vendor h a ?b)) = cs @ xs \<and>
          (fst (and_then ?r3 (link_vendor h a ?b)) = None) = list_all (call_succeeded h) xs"
    using 3 by (rule and_then_calls) (rule link_vendor_calls)
  then show ?thesis by (simp add: link_all_def Let_def)
qed

lemma create_and_link_calls:
  assumes "create_and_link h st sdk cl sh pol parent = (out, st')"
  shows "\<exists>xs. calls st' = calls st @ xs \<and>
           (\<exists>e. out = Failed e) = (\<not> list_all (call_succeeded h) xs) \<and>
           (\<forall>f. out \<noteq> Aborted f)"
proof -
  let ?a = "NativeLoaderNamespace_Create h (p_namespace_name pol) (p_library_path pol)
              (p_permitted_path pol) parent sh (sdk < 24)"
  let ?c = "CallCreate (p_namespace_name pol) (p_library_path pol)
              (p_permitted_path pol) parent sh (sdk < 24)"
  show ?thesis
  proof (cases "IsNil h ?a")
    case True
    then have "out = Failed (GetError ?a)" "calls st' = calls st @ [?c]"
      using assms by (auto simp: create_and_link_def Let_def)
    then show ?thesis using True by (intro exI [of _ "[?c]"]) simp
  next
    case False
    obtain e cs' where l: "link_all h ?a pol (calls st @ [?c]) = (e, cs')"
      by (cases "link_all h ?a pol (calls st @ [?c])")
    from link_all_calls [of h ?a pol "calls st @ [?c]"] obtain xs where
      x: "snd (link_all h ?a pol (calls st @ [?c])) = (calls st @ [?c]) @ xs \<and>
          (fst (link_all h ?a pol (calls st @ [?c])) = None) = list_all (call_succeeded h) xs" ..
    then have xs: "cs' = (calls st @ [?c]) @ xs" "(e = None) = list_all (call_succeeded h) xs"
      by (simp_all add: l)
    have "calls st' = cs'" "(\<exists>x. out = Failed x) = (e \<noteq> None)" "\<forall>f. out \<noteq> Aborted f"
      using assms False l by (auto simp: create_and_link_def Let_def split: option.splits)
    then show ?thesis using xs False by (intro exI [of _ "?c # xs"]) simp
  qed
qed

lemma create_and_link_namespaces:
  assumes "create_and_link h st sdk cl sh pol parent = (out, st')"
  shows "(case out of Created ns \<Rightarrow> namespaces st' = namespaces st @ [(cl, ns)]
                    | _ \<Rightarrow> namespaces st' = namespaces st)"
  using assms
  by (auto simp: create_and_link_def Let_def split: if_splits option.splits prod.splits)

lemma create_and_link_initialized:
  "create_and_link h st sdk cl sh pol parent = (out, st') \<Longrightarrow> initialized st' = initialized st"
  by (auto simp: create_and_link_def Let_def split: if_splits option.splits prod.splits)

lemma Create_reaches:
  assumes "GetApkOriginFromDexPath dex_path = Inr apk_origin"
    and "init_step h st (resolve_library_path jlp) = (None, st1)"
    and "FindNamespaceByClassLoader st1 cl = None"
    and "FindParentNamespaceByClassLoader h st1 cl = Some parent_ns"
  shows "Create h st sdk cl sh dex_path jlp jpp =
           Some (create_and_link h st1 sdk cl sh
                   (compute_policy h apk_origin sdk sh (resolve_library_path jlp)
                      (resolve_permitted_path jpp)) parent_ns)"
  using assms by (simp add: Create_def Let_def)

lemma Create_cases:
  assumes "Create h st sdk cl sh dex_path jlp jpp = Some (out, st')"
  obtains (dex) f where "GetApkOriginFromDexPath dex_path = Inl f" "out = Aborted f" "st' = st"
  | (init) apk_origin e where "GetApkOriginFromDexPath dex_path = Inr apk_origin"
      "init_step h st (resolve_library_path jlp) = (Some e, st')" "out = Failed e"
  | (found) apk_origin ns0 where "GetApkOriginFromDexPath dex_path = Inr apk_origin"
      "init_step h st (resolve_library_path jlp) = (None, st')"
      "FindNamespaceByClassLoader st' cl = Some ns0" "out = Aborted AlreadyANamespace"
  | (reach) apk_origin st1 parent_ns where "GetApkOriginFromDexPath dex_path = Inr apk_origin"
      "init_step h st (resolve_library_path jlp) = (None, st1)"
      "FindNamespaceByClassLoader st1 cl = None"
      "FindParentNamespaceByClassLoader h st1 cl = Some parent_ns"
      "create_and_link h st1 sdk cl sh
         (compute_policy h apk_origin sdk sh (resolve_library_path jlp)
            (resolve_permitted_path jpp)) parent_ns = (out, st')"
proof (cases "GetApkOriginFromDexPath dex_path")
  case (Inl f)
  then show ?thesis using assms dex by (simp add: Create_def Let_def)
next
  case (Inr apk_origin)
  obtain r st1 where i: "init_step h st (resolve_library_path jlp) = (r, st1)"
    by (cases "init_step h st (resolve_library_path jlp)")
  show ?thesis
  proof (cases r)
    case (Some e)
    then show ?thesis using assms Inr i init [of apk_origin e] by (simp add: Create_def Let_def)
  next
    case None
    note r = None
    show ?thesis
    proof (cases "FindNamespaceByClassLoader st1 cl")
      case (Some ns0)
      then show ?thesis
        using assms Inr i r found [of apk_origin ns0] by (simp add: Create_def Let_def)
    next
      case None
      note nf = None
      show ?thesis
      proof (cases "FindParentNamespaceByClassLoader h st1 cl")
        case None
        then show ?thesis using assms Inr i r nf by (simp add: Create_def Let_def)
      next
        case (Some parent_ns)
        then show ?thesis
          using assms Inr i r nf reach [of apk_origin st1 parent_ns]
          by (simp add: Create_def Let_def)
      qed
    qed
  qed
qed

subsection \<open>The lookups\<close>

lemma parent_loop_chain:
  "ancestor_chain h c as \<Longrightarrow>
     parent_loop h st (GetParentClassLoader h c) =
       Some (case List.find (\<lambda>a. FindNamespaceByClassLoader st a \<noteq> None) as of
               None \<Rightarrow> None
             | Some a \<Rightarrow> FindNamespaceByClassLoader st a)"
proof (induction as arbitrary: c)
  case Nil
  then show ?case by (simp add: parent_loop_None)
next
  case (Cons a as)
  then have p: "GetParentClassLoader h c = Some a" and rest: "ancestor_chain h a as"
    by simp_all
  show ?case
  proof (cases "FindNamespaceByClassLoader st a")
    case None
    then show ?thesis using Cons.IH [OF rest] p by (simp add: parent_loop_Some)
  next
    case (Some ns)
    then show ?thesis using p by (simp add: parent_loop_Some)
  qed
qed

lemma FindNamespaceByClassLoader_namespaces:
  "namespaces a = namespaces b \<Longrightarrow>
     FindNamespaceByClassLoader a c = FindNamespaceByClassLoader b c"
  by (simp add: FindNamespaceByClassLoader_def)

lemma find_snoc:
  "List.find P (xs @ [y]) =
     (case List.find P xs of None \<Rightarrow> (if P y then Some y else None) | Some x \<Rightarrow> Some x)"
  by (induction xs) simp_all

lemma FindNamespaceByClassLoader_snoc:
  "namespaces st' = namespaces st @ [(cl, ns)] \<Longrightarrow>
     FindNamespaceByClassLoader st' c =
       (case FindNamespaceByClassLoader st c of
          None \<Rightarrow> (if c = cl then Some ns else None)
        | Some n \<Rightarrow> Some n)"
  by (auto simp: FindNamespaceByClassLoader_def find_snoc IsSameObject_def split: option.splits)

lemma Create_returns:
  assumes "ancestor_chain h cl as"
  shows "Create h st sdk cl sh dex_path jlp jpp \<noteq> None"
proof -
  have fp: "FindParentNamespaceByClassLoader h st1 cl =
              Some (case List.find (\<lambda>a. FindNamespaceByClassLoader st1 a \<noteq> None) as of
                      None \<Rightarrow> None
                    | Some a \<Rightarrow> FindNamespaceByClassLoader st1 a)" for st1
    unfolding FindParentNamespaceByClassLoader_def using assms by (rule parent_loop_chain)
  show ?thesis
    by (simp add: Create_def Let_def fp split: sum.splits prod.splits option.splits)
qed

subsection \<open>The policy and the links\<close>

lemma and_then_prefix:
  assumes "\<exists>xs. snd r = cs @ xs"
    and "\<And>cs'. \<exists>ys. snd (step cs') = cs' @ ys"
  shows "\<exists>zs. snd (and_then r step) = cs @ zs"
proof -
  from assms(1) obtain xs where xs: "snd r = cs @ xs" ..
  from assms(2) [of "cs @ xs"] obtain ys where ys: "snd (step (cs @ xs)) = (cs @ xs) @ ys" ..
  show ?thesis
  proof (cases "fst r")
    case None
    then have "and_then r step = step (cs @ xs)"
      using xs by (cases r) (simp add: and_then_def)
    then have "snd (and_then r step) = cs @ (xs @ ys)" using ys by simp
    then show ?thesis by (rule exI)
  next
    case (Some e)
    then have "and_then r step = r" by (cases r) (simp add: and_then_def)
    then show ?thesis using assms(1) by simp
  qed
qed

lemma link_all_head:
  "\<exists>rest. snd (link_all h a pol cs) =
      cs @ CallLink a (GetPlatformNamespace h (IsBridged h a)) (p_system_exposed_libraries pol) # rest"
proof -
  let ?b = "IsBridged h a"
  let ?c = "CallLink a (GetPlatformNamespace h ?b) (p_system_exposed_libraries pol)"
  let ?r1 = "link_platform h a ?b (p_system_exposed_libraries pol) cs"
  let ?r2 = "and_then ?r1 (link_runtime h a ?b)"
  let ?r3 = "and_then ?r2 (link_vndk h a ?b (p_unbundled_vendor_or_product_app pol))"
  have 1: "\<exists>xs. snd ?r1 = (cs @ [?c]) @ xs"
    by (simp add: link_platform_def Let_def)
  have 2: "\<exists>xs. snd ?r2 = (cs @ [?c]) @ xs"
    using 1 by (rule and_then_prefix) (simp add: link_runtime_def Let_def)
  have 3: "\<exists>xs. snd ?r3 = (cs @ [?c]) @ xs"
    using 2 by (rule and_then_prefix) (simp add: link_vndk_def Let_def)
  have "\<exists>xs. snd (and_then ?r3 (link_vendor h a ?b)) = (cs @ [?c]) @ xs"
    using 3 by (rule and_then_prefix) (simp add: link_vendor_def Let_def)
  then show ?thesis by (simp add: link_all_def Let_def)
qed

lemma create_and_link_head:
  "\<exists>rest. calls (snd (create_and_link h st sdk cl sh pol parent)) =
       calls st @ CallCreate (p_namespace_name pol) (p_library_path pol) (p_permitted_path pol)
                    parent sh (sdk < 24) # rest \<and>
     (let app_ns = NativeLoaderNamespace_Create h (p_namespace_name pol) (p_library_path pol)
                     (p_permitted_path pol) parent sh (sdk < 24)
      in \<not> IsNil h app_ns \<longrightarrow>
         (\<exists>rest'. rest = CallLink app_ns (GetPlatformNamespace h (IsBridged h app_ns))
                            (p_system_exposed_libraries pol) # rest'))"
proof -
  let ?a = "NativeLoaderNamespace_Create h (p_namespace_name pol) (p_library_path pol)
              (p_permitted_path pol) parent sh (sdk < 24)"
  let ?c = "CallCreate (p_namespace_name pol) (p_library_path pol)
              (p_permitted_path pol) parent sh (sdk < 24)"
  show ?thesis
  proof (cases "IsNil h ?a")
    case True
    then show ?thesis by (simp add: create_and_link_def Let_def)
  next
    case False
    from link_all_head [of h ?a pol "calls st @ [?c]"] obtain rest' where
      r: "snd (link_all h ?a pol (calls st @ [?c])) =
            (calls st @ [?c]) @ CallLink ?a (GetPlatformNamespace h (IsBridged h ?a))
               (p_system_exposed_libraries pol) # rest'" ..
    have "calls (snd (create_and_link h st sdk cl sh pol parent)) =
            snd (link_all h ?a pol (calls st @ [?c]))"
      using False by (simp add: create_and_link_def Let_def split: prod.splits option.splits)
    then show ?thesis using r False by (simp add: Let_def)
  qed
qed

lemma Create_policy_calls:
  assumes "GetApkOriginFromDexPath dex_path = Inr apk_origin"
    and "init_step h st (resolve_library_path jlp) = (None, st1)"
    and "FindNamespaceByClassLoader st1 cl = None"
    and "FindParentNamespaceByClassLoader h st1 cl = Some parent_ns"
    and "pol = compute_policy h apk_origin sdk sh (resolve_library_path jlp)
                 (resolve_permitted_path jpp)"
  shows "\<exists>out st' rest.
           Create h st sdk cl sh dex_path jlp jpp = Some (out, st') \<and>
           calls st' = calls st1 @ CallCreate (p_namespace_name pol) (p_library_path pol)
                         (p_permitted_path pol) parent_ns sh (sdk < 24) # rest \<and>
           (let app_ns = NativeLoaderNamespace_Create h (p_namespace_name pol)
                           (p_library_path pol) (p_permitted_path pol) parent_ns sh (sdk < 24)
            in \<not> IsNil h app_ns \<longrightarrow>
               (\<exists>rest'. rest = CallLink app_ns (GetPlatformNamespace h (IsBridged h app_ns))
                                  (p_system_exposed_libraries pol) # rest'))"
proof -
  obtain out st' where r: "create_and_link h st1 sdk cl sh pol parent_ns = (out, st')"
    by (cases "create_and_link h st1 sdk cl sh pol parent_ns")
  have c: "Create h st sdk cl sh dex_path jlp jpp = Some (out, st')"
    using Create_reaches [OF assms(1-4), of sdk sh jpp] r assms(5) by simp
  from create_and_link_head [of h st1 sdk cl sh pol parent_ns] obtain rest where
    "calls (snd (create_and_link h st1 sdk cl sh pol parent_ns)) =
       calls st1 @ CallCreate (p_namespace_name pol) (p_library_path pol) (p_permitted_path pol)
                    parent_ns sh (sdk < 24) # rest \<and>
     (let app_ns = NativeLoaderNamespace_Create h (p_namespace_name pol) (p_library_path pol)
                     (p_permitted_path pol) parent_ns sh (sdk < 24)
      in \<not> IsNil h app_ns \<longrightarrow>
         (\<exists>rest'. rest = CallLink app_ns (GetPlatformNamespace h (IsBridged h app_ns))
                            (p_system_exposed_libraries pol) # rest'))" ..
  then have "Create h st sdk cl sh dex_path jlp jpp = Some (out, st') \<and>
           calls st' = calls st1 @ CallCreate (p_namespace_name pol) (p_library_path pol)
                         (p_permitted_path pol) parent_ns sh (sdk < 24) # rest \<and>
           (let app_ns = NativeLoaderNamespace_Create h (p_namespace_name pol)
                           (p_library_path pol) (p_permitted_path pol) parent_ns sh (sdk < 24)
            in \<not> IsNil h app_ns \<longrightarrow>
               (\<exists>rest'. rest = CallLink app_ns (GetPlatformNamespace h (IsBridged h app_ns))
                                  (p_system_exposed_libraries pol) # rest'))"
    using c r by simp
  then show ?thesis by (intro exI)
qed

lemma compute_policy_ordinary:
  assumes "\<not> ((apk_origin = APK_ORIGIN_VENDOR \<or>
               (apk_origin = APK_ORIGIN_PRODUCT \<and> 29 < sdk)) \<and> \<not> sh)"
  shows "compute_policy h apk_origin sdk sh lp pp =
           \<lparr>p_library_path = lp,
            p_permitted_path = pp,
            p_system_exposed_libraries =
              (if extended_public_libraries h \<noteq> []
               then default_public_libraries h @ '':'' @ extended_public_libraries h
               else default_public_libraries h),
            p_namespace_name = kClassloaderNamespaceName,
            p_unbundled_vendor_or_product_app = False\<rparr>"
  using assms unfolding compute_policy_def by (simp only: if_False)

lemma link_all_vendor:
  assumes "Link h a (GetPlatformNamespace h (IsBridged h a)) (p_system_exposed_libraries pol)"
    and "IsNil h (GetExportedNamespace h kRuntimeNamespaceName (IsBridged h a)) \<or>
         Link h a (GetExportedNamespace h kRuntimeNamespaceName (IsBridged h a))
           (runtime_public_libraries h)"
    and "\<not> (p_unbundled_vendor_or_product_app pol \<and> vndksp_libraries h \<noteq> [] \<and>
            \<not> IsNil h (GetExportedNamespace h kVndkNamespaceName (IsBridged h a))) \<or>
         Link h a (GetExportedNamespace h kVndkNamespaceName (IsBridged h a)) (vndksp_libraries h)"
  shows "link_all h a pol cs =
     (if vendor_public_libraries h = [] \<or>
         Link h a (GetExportedNamespace h kVendorNamespaceName (IsBridged h a))
           (vendor_public_libraries h)
      then None else Some dlerror,
      cs @ [CallLink a (GetPlatformNamespace h (IsBridged h a)) (p_system_exposed_libraries pol)] @
      (if \<not> IsNil h (GetExportedNamespace h kRuntimeNamespaceName (IsBridged h a))
       then [CallLink a (GetExportedNamespace h kRuntimeNamespaceName (IsBridged h a))
               (runtime_public_libraries h)]
       else []) @
      (if p_unbundled_vendor_or_product_app pol \<and> vndksp_libraries h \<noteq> [] \<and>
          \<not> IsNil h (GetExportedNamespace h kVndkNamespaceName (IsBridged h a))
       then [CallLink a (GetExportedNamespace h kVndkNamespaceName (IsBridged h a))
               (vndksp_libraries h)]
       else []) @
      (if vendor_public_libraries h \<noteq> []
       then [CallLink a (GetExportedNamespace h kVendorNamespaceName (IsBridged h a))
               (vendor_public_libraries h)]
       else []))"
proof -
  let ?b = "IsBridged h a"
  let ?c1 = "cs @ [CallLink a (GetPlatformNamespace h ?b) (p_system_exposed_libraries pol)]"
  let ?c2 = "?c1 @ (if \<not> IsNil h (GetExportedNamespace h kRuntimeNamespaceName ?b)
       then [CallLink a (GetExportedNamespace h kRuntimeNamespaceName ?b)
               (runtime_public_libraries h)]
       else [])"
  let ?c3 = "?c2 @ (if p_unbundled_vendor_or_product_app pol \<and> vndksp_libraries h \<noteq> [] \<and>
          \<not> IsNil h (GetExportedNamespace h kVndkNamespaceName ?b)
       then [CallLink a (GetExportedNamespace h kVndkNamespaceName ?b) (vndksp_libraries h)]
       else [])"
  have 1: "link_platform h a ?b (p_system_exposed_libraries pol) cs = (None, ?c1)"
    using assms(1) by (simp add: link_platform_def Let_def)
  have 2: "link_runtime h a ?b ?c1 = (None, ?c2)"
    using assms(2) by (auto simp: link_runtime_def Let_def)
  have 3: "link_vndk h a ?b (p_unbundled_vendor_or_product_app pol) ?c2 = (None, ?c3)"
    using assms(3) by (auto simp: link_vndk_def Let_def)
  have "link_all h a pol cs = link_vendor h a ?b ?c3"
    by (simp only: link_all_def Let_def 1 2 3 and_then_def prod.case option.case)
  then show ?thesis by (simp add: link_vendor_def Let_def)
qed

lemma GetApkOriginFromDexPath_fatal:
  "GetApkOriginFromDexPath dex_path = Inl f \<Longrightarrow> f \<noteq> AlreadyANamespace"
  by (auto simp: GetApkOriginFromDexPath_def Let_def split: option.splits if_splits)

lemma preload_all:
  "list_all (dlopen h) sonames \<Longrightarrow> preload h sonames cs = (None, cs @ map CallDlopen sonames)"
  by (induction sonames arbitrary: cs) simp_all

lemma Create_keeps_initialized:
  assumes "Create h st sdk cl sh dex_path jlp jpp = Some (out, st')" and "initialized st"
  shows "initialized st'"
  using assms(1)
proof (cases rule: Create_cases)
  case (reach apk_origin st1 parent_ns)
  then show ?thesis
    using create_and_link_initialized [OF reach(5)] init_step_keeps_initialized [OF reach(2)] assms(2)
    by simp
qed (use assms(2) init_step_keeps_initialized in auto)


section \<open>The claims\<close>

text \<open>
  C3. The origin of an APK is a function of the optional dex path: no dex path gives the
  default origin; a path that only the vendor pattern matches gives the vendor origin, one
  that only the product pattern matches the product origin, one that neither matches the
  default origin; on a path that both match the function ends the process and returns no
  origin.
\<close>

theorem GetApkOriginFromDexPath_classifies:
  "GetApkOriginFromDexPath None = Inr APK_ORIGIN_DEFAULT \<and>
   GetApkOriginFromDexPath (Some p) =
     (if regex_search p kVendorDexPathRegex \<and> regex_search p kProductDexPathRegex
      then Inl (DexPathVendorAndProduct p)
      else if regex_search p kVendorDexPathRegex then Inr APK_ORIGIN_VENDOR
      else if regex_search p kProductDexPathRegex then Inr APK_ORIGIN_PRODUCT
      else Inr APK_ORIGIN_DEFAULT)"
  by (simp add: GetApkOriginFromDexPath_def Let_def)

theorem GetApkOriginFromDexPath_classifies_witness:
  "GetApkOriginFromDexPath (Some ''/data/app/a.apk:/vendor/app/b.apk'') = Inr APK_ORIGIN_VENDOR"
  using GetApkOriginFromDexPath_classifies [of "''/data/app/a.apk:/vendor/app/b.apk''"]
  by (simp add: regex_search_def kVendorDexPathRegex_def kProductDexPathRegex_def)

text \<open>
  C8. When the parents of a class loader are the list \<open>as\<close>, the walk returns the
  namespace of the first one in the list that has one, and none when no parent has one;
  with three parents of which the first has no namespace and the second has one, it
  returns the second's.
\<close>

theorem FindParentNamespaceByClassLoader_nearest:
  "(ancestor_chain h class_loader as \<longrightarrow>
      FindParentNamespaceByClassLoader h st class_loader =
        Some (case List.find (\<lambda>a. FindNamespaceByClassLoader st a \<noteq> None) as of
                None \<Rightarrow> None
              | Some a \<Rightarrow> FindNamespaceByClassLoader st a)) \<and>
   (ancestor_chain h class_loader [a1, a2, a3] \<and>
    FindNamespaceByClassLoader st a1 = None \<and>
    FindNamespaceByClassLoader st a2 = Some ns2 \<longrightarrow>
      FindParentNamespaceByClassLoader h st class_loader = Some (Some ns2))"
proof (intro conjI impI)
  assume "ancestor_chain h class_loader as"
  then show "FindParentNamespaceByClassLoader h st class_loader =
        Some (case List.find (\<lambda>a. FindNamespaceByClassLoader st a \<noteq> None) as of
                None \<Rightarrow> None
              | Some a \<Rightarrow> FindNamespaceByClassLoader st a)"
    unfolding FindParentNamespaceByClassLoader_def by (rule parent_loop_chain)
next
  assume a: "ancestor_chain h class_loader [a1, a2, a3] \<and>
    FindNamespaceByClassLoader st a1 = None \<and>
    FindNamespaceByClassLoader st a2 = Some ns2"
  then have "ancestor_chain h class_loader [a1, a2, a3]" by simp
  from parent_loop_chain [OF this, of st] a
  show "FindParentNamespaceByClassLoader h st class_loader = Some (Some ns2)"
    by (simp add: FindParentNamespaceByClassLoader_def)
qed

theorem FindParentNamespaceByClassLoader_nearest_witness:
  "ancestor_chain host0 3 [2, 1, 0] \<and>
   FindNamespaceByClassLoader \<lparr>initialized = True, namespaces = [(1, ''n1'')], calls = []\<rparr> 2 = None \<and>
   FindNamespaceByClassLoader \<lparr>initialized = True, namespaces = [(1, ''n1'')], calls = []\<rparr> 1 = Some ''n1'' \<and>
   FindNamespaceByClassLoader \<lparr>initialized = True, namespaces = [(1, ''n1'')], calls = []\<rparr> 0 = None \<and>
   FindParentNamespaceByClassLoader host0
     \<lparr>initialized = True, namespaces = [(1, ''n1'')], calls = []\<rparr> 3 = Some (Some ''n1'')"
  using FindParentNamespaceByClassLoader_nearest
    [of host0 3 "[2, 1, 0]" "\<lparr>initialized = True, namespaces = [(1, ''n1'')], calls = []\<rparr>"
        2 1 0 "''n1''"]
  by (simp add: host0_def FindNamespaceByClassLoader_def IsSameObject_def)

text \<open>
  C10. When \<^verbatim>\<open>Create\<close> returns a namespace for a class loader, the list of
  namespaces is the one before with the pair of that class loader and that namespace added
  at the end; the class loader had no element before, so the lookup of it now returns the
  namespace that was returned, and the lookup of every other class loader returns what it
  returned before.
\<close>

theorem Create_returns_registered_handle:
  assumes "Create h st target_sdk_version class_loader is_shared dex_path java_library_path
             java_permitted_path = Some (Created ns, st')"
  shows "namespaces st' = namespaces st @ [(class_loader, ns)] \<and>
         FindNamespaceByClassLoader st class_loader = None \<and>
         FindNamespaceByClassLoader st' class_loader = Some ns \<and>
         (\<forall>c. c \<noteq> class_loader \<longrightarrow>
              FindNamespaceByClassLoader st' c = FindNamespaceByClassLoader st c)"
  using assms
proof (cases rule: Create_cases)
  case (reach apk_origin st1 parent_ns)
  have n1: "namespaces st1 = namespaces st"
    using reach(2) by (rule init_step_namespaces)
  have n: "namespaces st' = namespaces st @ [(class_loader, ns)]"
    using create_and_link_namespaces [OF reach(5)] n1 by simp
  have nf: "FindNamespaceByClassLoader st class_loader = None"
    using reach(3) FindNamespaceByClassLoader_namespaces [OF n1] by simp
  show ?thesis
    using n nf by (simp add: FindNamespaceByClassLoader_snoc [OF n] split: option.splits)
qed simp_all

theorem Create_returns_registered_handle_witness:
  "Create host0 fresh 30 0 False None None None =
     Some (Created ''classloader-namespace'',
           \<lparr>initialized = False, namespaces = [(0, ''classloader-namespace'')],
            calls = [CallCreate ''classloader-namespace'' [] ''/data:/mnt/expand'' None False False,
                     CallLink ''classloader-namespace'' ''platform'' ''libc.so:libm.so:libext.so'',
                     CallLink ''classloader-namespace'' ''runtime'' ''libicuuc.so'',
                     CallLink ''classloader-namespace'' [] ''libvendor.so'']\<rparr>) \<and>
   FindNamespaceByClassLoader
     \<lparr>initialized = False, namespaces = [(0, ''classloader-namespace'')],
      calls = [CallCreate ''classloader-namespace'' [] ''/data:/mnt/expand'' None False False,
               CallLink ''classloader-namespace'' ''platform'' ''libc.so:libm.so:libext.so'',
               CallLink ''classloader-namespace'' ''runtime'' ''libicuuc.so'',
               CallLink ''classloader-namespace'' [] ''libvendor.so'']\<rparr> 0 =
     Some ''classloader-namespace''"
proof -
  have c: "Create host0 fresh 30 0 False None None None =
     Some (Created ''classloader-namespace'',
           \<lparr>initialized = False, namespaces = [(0, ''classloader-namespace'')],
            calls = [CallCreate ''classloader-namespace'' [] ''/data:/mnt/expand'' None False False,
                     CallLink ''classloader-namespace'' ''platform'' ''libc.so:libm.so:libext.so'',
                     CallLink ''classloader-namespace'' ''runtime'' ''libicuuc.so'',
                     CallLink ''classloader-namespace'' [] ''libvendor.so'']\<rparr>)"
    by (simp add: model_defs host0_def fresh_def)
  from Create_returns_registered_handle [OF c] c show ?thesis by simp
qed

text \<open>
  C5. \<^verbatim>\<open>Create\<close> returns when the chain of parents is finite. When it returns, the
  list of namespaces is unchanged unless a namespace is returned, and then it is the list
  before with the pair of the class loader and the returned namespace at the end. It
  returns an error exactly when one of the calls it made (the initialization of the
  anonymous namespace, the creation of the namespace, a link) failed.
\<close>

theorem Create_registry_atomic:
  "(ancestor_chain h class_loader as \<longrightarrow>
      Create h st target_sdk_version class_loader is_shared dex_path java_library_path
        java_permitted_path \<noteq> None) \<and>
   (\<forall>out st'.
      Create h st target_sdk_version class_loader is_shared dex_path java_library_path
        java_permitted_path = Some (out, st') \<longrightarrow>
      (case out of
         Created ns \<Rightarrow> namespaces st' = namespaces st @ [(class_loader, ns)]
       | _ \<Rightarrow> namespaces st' = namespaces st) \<and>
      (\<exists>xs. calls st' = calls st @ xs \<and>
            (\<exists>e. out = Failed e) = (\<exists>c \<in> set xs. \<not> call_succeeded h c)))"
proof (intro conjI impI allI)
  assume "ancestor_chain h class_loader as"
  then show "Create h st target_sdk_version class_loader is_shared dex_path java_library_path
        java_permitted_path \<noteq> None"
    by (rule Create_returns)
next
  fix out st'
  assume c: "Create h st target_sdk_version class_loader is_shared dex_path java_library_path
        java_permitted_path = Some (out, st')"
  then show "case out of
         Created ns \<Rightarrow> namespaces st' = namespaces st @ [(class_loader, ns)]
       | _ \<Rightarrow> namespaces st' = namespaces st"
  proof (cases rule: Create_cases)
    case (reach apk_origin st1 parent_ns)
    show ?thesis
      using create_and_link_namespaces [OF reach(5)] init_step_namespaces [OF reach(2)]
      by (simp split: outcome.splits)
  qed (simp_all add: init_step_namespaces)
  from c show "\<exists>xs. calls st' = calls st @ xs \<and>
            (\<exists>e. out = Failed e) = (\<exists>c \<in> set xs. \<not> call_succeeded h c)"
  proof (cases rule: Create_cases)
    case (dex f)
    then show ?thesis by simp
  next
    case (init apk_origin e)
    from init_step_calls [OF init(2)] obtain xs where
      "calls st' = calls st @ xs \<and> (Some e = None) = list_all (call_succeeded h) xs" ..
    then have "calls st' = calls st @ xs \<and>
            (\<exists>e. out = Failed e) = (\<exists>c \<in> set xs. \<not> call_succeeded h c)"
      using init(3) by (simp add: list_all_iff)
    then show ?thesis by (rule exI)
  next
    case (found apk_origin ns0)
    from init_step_calls [OF found(2)] obtain xs where
      "calls st' = calls st @ xs" "list_all (call_succeeded h) xs" by auto
    then have "calls st' = calls st @ xs \<and>
            (\<exists>e. out = Failed e) = (\<exists>c \<in> set xs. \<not> call_succeeded h c)"
      using found(4) by (simp add: list_all_iff)
    then show ?thesis by (rule exI)
  next
    case (reach apk_origin st1 parent_ns)
    from init_step_calls [OF reach(2)] obtain xs where
      xs: "calls st1 = calls st @ xs" "list_all (call_succeeded h) xs" by auto
    from create_and_link_calls [OF reach(5)] obtain ys where
      ys: "calls st' = calls st1 @ ys \<and>
           (\<exists>e. out = Failed e) = (\<not> list_all (call_succeeded h) ys) \<and>
           (\<forall>f. out \<noteq> Aborted f)" ..
    have "calls st' = calls st @ (xs @ ys) \<and>
            (\<exists>e. out = Failed e) = (\<exists>c \<in> set (xs @ ys). \<not> call_succeeded h c)"
      using xs ys by (auto simp: list_all_iff)
    then show ?thesis by (rule exI)
  qed
qed

theorem Create_registry_atomic_witness:
  "ancestor_chain host_init_fails 0 [] \<and>
   Create host_init_fails fresh 30 0 False None (Some ''/data/app/lib'') None =
     Some (Failed dlerror,
           \<lparr>initialized = False, namespaces = [],
            calls = [CallInitAnonymous ''libc.so:libm.so'' (Some ''/data/app/lib'')]\<rparr>) \<and>
   \<not> call_succeeded host_init_fails
       (CallInitAnonymous ''libc.so:libm.so'' (Some ''/data/app/lib''))"
  using Create_registry_atomic
    [of host_init_fails 0 "[]" fresh 30 False None "Some ''/data/app/lib''" None]
  by (simp add: model_defs example_defs)

text \<open>
  C1. A call of \<^verbatim>\<open>Create\<close> for an APK of the vendor partition that is not shared,
  with any target SDK version, that gets as far as the policy (the anonymous namespace does
  not fail to initialize, the class loader has no namespace yet, the walk up the parents
  ends): the library path and the permitted path are each extended with \<^verbatim>\<open>:\<close> and
  the vendor library directory, the libraries exposed by the platform are the default
  public libraries, \<^verbatim>\<open>:\<close> and the LLNDK libraries, and the name is
  \<^verbatim>\<open>vendor-classloader-namespace\<close>; the namespace is created with that name and
  those paths and, when it is not nil, first linked to the platform namespace with those
  libraries.
\<close>

theorem Create_unbundled_vendor:
  assumes "GetApkOriginFromDexPath dex_path = Inr APK_ORIGIN_VENDOR"
    and "init_step h st (resolve_library_path java_library_path) = (None, st1)"
    and "FindNamespaceByClassLoader st1 class_loader = None"
    and "FindParentNamespaceByClassLoader h st1 class_loader = Some parent_ns"
  shows "compute_policy h APK_ORIGIN_VENDOR target_sdk_version False
           (resolve_library_path java_library_path) (resolve_permitted_path java_permitted_path) =
           \<lparr>p_library_path = resolve_library_path java_library_path @ '':'' @ kVendorLibPath (LIB h),
            p_permitted_path =
              resolve_permitted_path java_permitted_path @ '':'' @ kVendorLibPath (LIB h),
            p_system_exposed_libraries = default_public_libraries h @ '':'' @ llndk_libraries h,
            p_namespace_name = kVendorClassloaderNamespaceName,
            p_unbundled_vendor_or_product_app = True\<rparr> \<and>
         (\<exists>out st' rest.
            Create h st target_sdk_version class_loader False dex_path java_library_path
              java_permitted_path = Some (out, st') \<and>
            calls st' =
              calls st1 @
              CallCreate kVendorClassloaderNamespaceName
                (resolve_library_path java_library_path @ '':'' @ kVendorLibPath (LIB h))
                (resolve_permitted_path java_permitted_path @ '':'' @ kVendorLibPath (LIB h))
                parent_ns False (target_sdk_version < 24) # rest \<and>
            (let app_ns = NativeLoaderNamespace_Create h kVendorClassloaderNamespaceName
                   (resolve_library_path java_library_path @ '':'' @ kVendorLibPath (LIB h))
                   (resolve_permitted_path java_permitted_path @ '':'' @ kVendorLibPath (LIB h))
                   parent_ns False (target_sdk_version < 24)
             in \<not> IsNil h app_ns \<longrightarrow>
                (\<exists>rest'. rest =
                   CallLink app_ns (GetPlatformNamespace h (IsBridged h app_ns))
                     (default_public_libraries h @ '':'' @ llndk_libraries h) # rest')))"
proof -
  have p: "compute_policy h APK_ORIGIN_VENDOR target_sdk_version False
           (resolve_library_path java_library_path) (resolve_permitted_path java_permitted_path) =
           \<lparr>p_library_path = resolve_library_path java_library_path @ '':'' @ kVendorLibPath (LIB h),
            p_permitted_path =
              resolve_permitted_path java_permitted_path @ '':'' @ kVendorLibPath (LIB h),
            p_system_exposed_libraries = default_public_libraries h @ '':'' @ llndk_libraries h,
            p_namespace_name = kVendorClassloaderNamespaceName,
            p_unbundled_vendor_or_product_app = True\<rparr>"
    by (simp add: compute_policy_def Let_def)
  show ?thesis
    using Create_policy_calls [OF assms p [symmetric]] p by simp
qed

theorem Create_unbundled_vendor_witness:
  "GetApkOriginFromDexPath (Some ''/vendor/app/a.apk'') = Inr APK_ORIGIN_VENDOR \<and>
   init_step host0 fresh (resolve_library_path (Some ''/vendor/app/lib'')) = (None, bootstrapped) \<and>
   FindNamespaceByClassLoader bootstrapped 0 = None \<and>
   FindParentNamespaceByClassLoader host0 bootstrapped 0 = Some None \<and>
   Create host0 fresh 30 0 False (Some ''/vendor/app/a.apk'') (Some ''/vendor/app/lib'') None =
     Some (Created ''vendor-classloader-namespace'',
           \<lparr>initialized = True, namespaces = [(0, ''vendor-classloader-namespace'')],
            calls =
              [CallInitAnonymous ''libc.so:libm.so'' (Some ''/vendor/app/lib''),
               CallCreate ''vendor-classloader-namespace'' ''/vendor/app/lib:/vendor/lib64''
                 ''/data:/mnt/expand:/vendor/lib64'' None False False,
               CallLink ''vendor-classloader-namespace'' ''platform''
                 ''libc.so:libm.so:libvndksupport.so'',
               CallLink ''vendor-classloader-namespace'' ''runtime'' ''libicuuc.so'',
               CallLink ''vendor-classloader-namespace'' [] ''libvendor.so'']\<rparr>)"
proof -
  have 1: "GetApkOriginFromDexPath (Some ''/vendor/app/a.apk'') = Inr APK_ORIGIN_VENDOR"
    by (simp add: model_defs)
  have 2: "init_step host0 fresh (resolve_library_path (Some ''/vendor/app/lib'')) =
             (None, bootstrapped)"
    by (simp add: model_defs example_defs)
  have 3: "FindNamespaceByClassLoader bootstrapped 0 = None"
    by (simp add: model_defs example_defs)
  have 4: "FindParentNamespaceByClassLoader host0 bootstrapped 0 = Some None"
    by (simp add: model_defs example_defs)
  show ?thesis
    using Create_unbundled_vendor [OF 1 2 3 4, of 30 None] 1 2 3 4
    by (simp add: model_defs example_defs)
qed

text \<open>
  C2. A call of \<^verbatim>\<open>Create\<close> for an APK of the vendor partition that is shared and
  that gets as far as the policy takes the branch of an ordinary app: the paths are not
  extended, the name is \<^verbatim>\<open>classloader-namespace\<close>, and the libraries exposed by the
  platform are the default public libraries, followed by \<^verbatim>\<open>:\<close> and the extended
  public libraries when there are any. The list of LLNDK libraries is not appended: the
  policy is the same whatever that list is. A name of the default or of the extended public
  libraries is exposed also when it is the name of an LLNDK library.
\<close>

theorem Create_shared_vendor:
  assumes "GetApkOriginFromDexPath dex_path = Inr APK_ORIGIN_VENDOR"
    and "init_step h st (resolve_library_path java_library_path) = (None, st1)"
    and "FindNamespaceByClassLoader st1 class_loader = None"
    and "FindParentNamespaceByClassLoader h st1 class_loader = Some parent_ns"
  shows "compute_policy (h\<lparr>llndk_libraries := any_llndk\<rparr>) APK_ORIGIN_VENDOR
           target_sdk_version True
           (resolve_library_path java_library_path) (resolve_permitted_path java_permitted_path) =
           \<lparr>p_library_path = resolve_library_path java_library_path,
            p_permitted_path = resolve_permitted_path java_permitted_path,
            p_system_exposed_libraries =
              (if extended_public_libraries h \<noteq> []
               then default_public_libraries h @ '':'' @ extended_public_libraries h
               else default_public_libraries h),
            p_namespace_name = kClassloaderNamespaceName,
            p_unbundled_vendor_or_product_app = False\<rparr> \<and>
         (\<exists>out st' rest.
            Create h st target_sdk_version class_loader True dex_path java_library_path
              java_permitted_path = Some (out, st') \<and>
            calls st' =
              calls st1 @
              CallCreate kClassloaderNamespaceName
                (resolve_library_path java_library_path)
                (resolve_permitted_path java_permitted_path)
                parent_ns True (target_sdk_version < 24) # rest \<and>
            (let app_ns = NativeLoaderNamespace_Create h kClassloaderNamespaceName
                   (resolve_library_path java_library_path)
                   (resolve_permitted_path java_permitted_path)
                   parent_ns True (target_sdk_version < 24)
             in \<not> IsNil h app_ns \<longrightarrow>
                (\<exists>rest'. rest =
                   CallLink app_ns (GetPlatformNamespace h (IsBridged h app_ns))
                     (if extended_public_libraries h \<noteq> []
                      then default_public_libraries h @ '':'' @ extended_public_libraries h
                      else default_public_libraries h) # rest')))"
proof -
  have p: "compute_policy h' APK_ORIGIN_VENDOR target_sdk_version True
           (resolve_library_path java_library_path) (resolve_permitted_path java_permitted_path) =
           \<lparr>p_library_path = resolve_library_path java_library_path,
            p_permitted_path = resolve_permitted_path java_permitted_path,
            p_system_exposed_libraries =
              (if extended_public_libraries h' \<noteq> []
               then default_public_libraries h' @ '':'' @ extended_public_libraries h'
               else default_public_libraries h'),
            p_namespace_name = kClassloaderNamespaceName,
            p_unbundled_vendor_or_product_app = False\<rparr>" for h' :: "'a host"
    by (rule compute_policy_ordinary) simp
  show ?thesis
    using Create_policy_calls [OF assms p [of h, symmetric]]
      p [of "h\<lparr>llndk_libraries := any_llndk\<rparr>"] p [of h]
    by simp
qed

theorem Create_shared_vendor_witness:
  "GetApkOriginFromDexPath (Some ''/vendor/app/a.apk'') = Inr APK_ORIGIN_VENDOR \<and>
   init_step host0 fresh (resolve_library_path (Some ''/vendor/app/lib'')) = (None, bootstrapped) \<and>
   FindNamespaceByClassLoader bootstrapped 0 = None \<and>
   FindParentNamespaceByClassLoader host0 bootstrapped 0 = Some None \<and>
   Create host0 fresh 30 0 True (Some ''/vendor/app/a.apk'') (Some ''/vendor/app/lib'') None =
     Some (Created ''classloader-namespace'',
           \<lparr>initialized = True, namespaces = [(0, ''classloader-namespace'')],
            calls =
              [CallInitAnonymous ''libc.so:libm.so'' (Some ''/vendor/app/lib''),
               CallCreate ''classloader-namespace'' ''/vendor/app/lib''
                 ''/data:/mnt/expand'' None True False,
               CallLink ''classloader-namespace'' ''platform'' ''libc.so:libm.so:libext.so'',
               CallLink ''classloader-namespace'' ''runtime'' ''libicuuc.so'',
               CallLink ''classloader-namespace'' [] ''libvendor.so'']\<rparr>)"
proof -
  have 1: "GetApkOriginFromDexPath (Some ''/vendor/app/a.apk'') = Inr APK_ORIGIN_VENDOR"
    by (simp add: model_defs)
  have 2: "init_step host0 fresh (resolve_library_path (Some ''/vendor/app/lib'')) =
             (None, bootstrapped)"
    by (simp add: model_defs example_defs)
  have 3: "FindNamespaceByClassLoader bootstrapped 0 = None"
    by (simp add: model_defs example_defs)
  have 4: "FindParentNamespaceByClassLoader host0 bootstrapped 0 = Some None"
    by (simp add: model_defs example_defs)
  show ?thesis
    using Create_shared_vendor [OF 1 2 3 4, of "[]" 30 None] 1 2 3 4
    by (simp add: model_defs example_defs)
qed

text \<open>
  On a host whose LLNDK library \<^verbatim>\<open>libc.so\<close> is a default public library too, the
  platform link of a shared vendor app exposes \<^verbatim>\<open>libc.so\<close>: the list that is linked
  holds the name of an LLNDK library.
\<close>

theorem Create_shared_vendor_counterexample:
  "GetApkOriginFromDexPath (Some ''/vendor/app/a.apk'') = Inr APK_ORIGIN_VENDOR \<and>
   Create host_llndk_public fresh 30 0 True (Some ''/vendor/app/a.apk'')
     (Some ''/vendor/app/lib'') None =
     Some (Created ''classloader-namespace'',
           \<lparr>initialized = True, namespaces = [(0, ''classloader-namespace'')],
            calls =
              [CallInitAnonymous ''libc.so:libm.so'' (Some ''/vendor/app/lib''),
               CallCreate ''classloader-namespace'' ''/vendor/app/lib''
                 ''/data:/mnt/expand'' None True False,
               CallLink ''classloader-namespace'' (GetPlatformNamespace host_llndk_public False)
                 ''libc.so:libm.so:libext.so'',
               CallLink ''classloader-namespace'' ''runtime'' ''libicuuc.so'',
               CallLink ''classloader-namespace'' [] ''libvendor.so'']\<rparr>) \<and>
   Split host_llndk_public (llndk_libraries host_llndk_public) '':'' = [''libc.so''] \<and>
   Split host_llndk_public ''libc.so:libm.so:libext.so'' '':'' =
     [''libc.so'', ''libm.so'', ''libext.so'']"
  by (simp add: model_defs example_defs)

text \<open>
  C7. A call of \<^verbatim>\<open>Create\<close> for an APK of the product partition that is not shared,
  with a target SDK version of at most 29, that gets as far as the policy takes the branch
  of an ordinary app: the library path and the permitted path are not extended with the
  product library directory, the LLNDK libraries are not added, and the extended public
  libraries are exposed by the platform when there are any.
\<close>

theorem Create_legacy_product:
  assumes "GetApkOriginFromDexPath dex_path = Inr APK_ORIGIN_PRODUCT"
    and "target_sdk_version \<le> 29"
    and "init_step h st (resolve_library_path java_library_path) = (None, st1)"
    and "FindNamespaceByClassLoader st1 class_loader = None"
    and "FindParentNamespaceByClassLoader h st1 class_loader = Some parent_ns"
  shows "compute_policy (h\<lparr>llndk_libraries := any_llndk\<rparr>) APK_ORIGIN_PRODUCT
           target_sdk_version False
           (resolve_library_path java_library_path) (resolve_permitted_path java_permitted_path) =
           \<lparr>p_library_path = resolve_library_path java_library_path,
            p_permitted_path = resolve_permitted_path java_permitted_path,
            p_system_exposed_libraries =
              (if extended_public_libraries h \<noteq> []
               then default_public_libraries h @ '':'' @ extended_public_libraries h
               else default_public_libraries h),
            p_namespace_name = kClassloaderNamespaceName,
            p_unbundled_vendor_or_product_app = False\<rparr> \<and>
         (\<exists>out st' rest.
            Create h st target_sdk_version class_loader False dex_path java_library_path
              java_permitted_path = Some (out, st') \<and>
            calls st' =
              calls st1 @
              CallCreate kClassloaderNamespaceName
                (resolve_library_path java_library_path)
                (resolve_permitted_path java_permitted_path)
                parent_ns False (target_sdk_version < 24) # rest \<and>
            (let app_ns = NativeLoaderNamespace_Create h kClassloaderNamespaceName
                   (resolve_library_path java_library_path)
                   (resolve_permitted_path java_permitted_path)
                   parent_ns False (target_sdk_version < 24)
             in \<not> IsNil h app_ns \<longrightarrow>
                (\<exists>rest'. rest =
                   CallLink app_ns (GetPlatformNamespace h (IsBridged h app_ns))
                     (if extended_public_libraries h \<noteq> []
                      then default_public_libraries h @ '':'' @ extended_public_libraries h
                      else default_public_libraries h) # rest')))"
proof -
  have "\<not> 29 < target_sdk_version" using assms(2) by simp
  then have p: "compute_policy h' APK_ORIGIN_PRODUCT target_sdk_version False
           (resolve_library_path java_library_path) (resolve_permitted_path java_permitted_path) =
           \<lparr>p_library_path = resolve_library_path java_library_path,
            p_permitted_path = resolve_permitted_path java_permitted_path,
            p_system_exposed_libraries =
              (if extended_public_libraries h' \<noteq> []
               then default_public_libraries h' @ '':'' @ extended_public_libraries h'
               else default_public_libraries h'),
            p_namespace_name = kClassloaderNamespaceName,
            p_unbundled_vendor_or_product_app = False\<rparr>" for h' :: "'a host"
    by (intro compute_policy_ordinary) simp
  show ?thesis
    using Create_policy_calls [OF assms(1) assms(3-5) p [of h, symmetric]]
      p [of "h\<lparr>llndk_libraries := any_llndk\<rparr>"] p [of h]
    by simp
qed

theorem Create_legacy_product_witness:
  "GetApkOriginFromDexPath (Some ''/system/product/app/a.apk'') = Inr APK_ORIGIN_PRODUCT \<and>
   (29 :: 32 word) \<le> 29 \<and>
   init_step host0 fresh (resolve_library_path (Some ''/vendor/app/lib'')) = (None, bootstrapped) \<and>
   FindNamespaceByClassLoader bootstrapped 0 = None \<and>
   FindParentNamespaceByClassLoader host0 bootstrapped 0 = Some None \<and>
   Create host0 fresh 29 0 False (Some ''/system/product/app/a.apk'') (Some ''/vendor/app/lib'')
     None =
     Some (Created ''classloader-namespace'',
           \<lparr>initialized = True, namespaces = [(0, ''classloader-namespace'')],
            calls =
              [CallInitAnonymous ''libc.so:libm.so'' (Some ''/vendor/app/lib''),
               CallCreate ''classloader-namespace'' ''/vendor/app/lib''
                 ''/data:/mnt/expand'' None False False,
               CallLink ''classloader-namespace'' ''platform'' ''libc.so:libm.so:libext.so'',
               CallLink ''classloader-namespace'' ''runtime'' ''libicuuc.so'',
               CallLink ''classloader-namespace'' [] ''libvendor.so'']\<rparr>)"
proof -
  have 1: "GetApkOriginFromDexPath (Some ''/system/product/app/a.apk'') = Inr APK_ORIGIN_PRODUCT"
    by (simp add: model_defs)
  have 2: "init_step host0 fresh (resolve_library_path (Some ''/vendor/app/lib'')) =
             (None, bootstrapped)"
    by (simp add: model_defs example_defs)
  have 3: "FindNamespaceByClassLoader bootstrapped 0 = None"
    by (simp add: model_defs example_defs)
  have 4: "FindParentNamespaceByClassLoader host0 bootstrapped 0 = Some None"
    by (simp add: model_defs example_defs)
  have 5: "(29 :: 32 word) \<le> 29" by simp
  show ?thesis
    using Create_legacy_product [OF 1 5 2 3 4, of "[]" None] 1 2 3 4
    by (simp add: model_defs example_defs)
qed

text \<open>
  C6. In a call of \<^verbatim>\<open>Create\<close> in which the namespace is created and the
  links to the platform, runtime and vndk namespaces do not fail, the link to the exported
  vendor namespace with the vendor public libraries is attempted exactly when the list of
  vendor public libraries is not empty; it is then attempted whether or not that namespace
  is nil, and its result decides between the returned namespace and an error. The calls
  made are the creation, the link to the platform, the link to the runtime namespace when
  that is not nil, the link to the vndk namespace for an unbundled vendor or product app
  when there are VNDK-SP libraries and that namespace is not nil, and the link to the vendor
  namespace when there are vendor public libraries.
\<close>

theorem Create_links_vendor:
  assumes "GetApkOriginFromDexPath dex_path = Inr apk_origin"
    and "init_step h st (resolve_library_path java_library_path) = (None, st1)"
    and "FindNamespaceByClassLoader st1 class_loader = None"
    and "FindParentNamespaceByClassLoader h st1 class_loader = Some parent_ns"
    and "pol = compute_policy h apk_origin target_sdk_version is_shared
                 (resolve_library_path java_library_path)
                 (resolve_permitted_path java_permitted_path)"
    and "app_ns = NativeLoaderNamespace_Create h (p_namespace_name pol) (p_library_path pol)
                    (p_permitted_path pol) parent_ns is_shared (target_sdk_version < 24)"
    and "\<not> IsNil h app_ns"
    and "Link h app_ns (GetPlatformNamespace h (IsBridged h app_ns))
           (p_system_exposed_libraries pol)"
    and "IsNil h (GetExportedNamespace h kRuntimeNamespaceName (IsBridged h app_ns)) \<or>
         Link h app_ns (GetExportedNamespace h kRuntimeNamespaceName (IsBridged h app_ns))
           (runtime_public_libraries h)"
    and "\<not> (p_unbundled_vendor_or_product_app pol \<and> vndksp_libraries h \<noteq> [] \<and>
            \<not> IsNil h (GetExportedNamespace h kVndkNamespaceName (IsBridged h app_ns))) \<or>
         Link h app_ns (GetExportedNamespace h kVndkNamespaceName (IsBridged h app_ns))
           (vndksp_libraries h)"
  shows "\<exists>st'.
     Create h st target_sdk_version class_loader is_shared dex_path java_library_path
       java_permitted_path =
       Some (if vendor_public_libraries h = [] \<or>
                Link h app_ns (GetExportedNamespace h kVendorNamespaceName (IsBridged h app_ns))
                  (vendor_public_libraries h)
             then Created app_ns else Failed dlerror, st') \<and>
     calls st' =
       calls st1 @
       [CallCreate (p_namespace_name pol) (p_library_path pol) (p_permitted_path pol) parent_ns
          is_shared (target_sdk_version < 24),
        CallLink app_ns (GetPlatformNamespace h (IsBridged h app_ns))
          (p_system_exposed_libraries pol)] @
       (if \<not> IsNil h (GetExportedNamespace h kRuntimeNamespaceName (IsBridged h app_ns))
        then [CallLink app_ns (GetExportedNamespace h kRuntimeNamespaceName (IsBridged h app_ns))
                (runtime_public_libraries h)]
        else []) @
       (if p_unbundled_vendor_or_product_app pol \<and> vndksp_libraries h \<noteq> [] \<and>
           \<not> IsNil h (GetExportedNamespace h kVndkNamespaceName (IsBridged h app_ns))
        then [CallLink app_ns (GetExportedNamespace h kVndkNamespaceName (IsBridged h app_ns))
                (vndksp_libraries h)]
        else []) @
       (if vendor_public_libraries h \<noteq> []
        then [CallLink app_ns (GetExportedNamespace h kVendorNamespaceName (IsBridged h app_ns))
                (vendor_public_libraries h)]
        else [])"
proof -
  let ?c = "CallCreate (p_namespace_name pol) (p_library_path pol) (p_permitted_path pol)
              parent_ns is_shared (target_sdk_version < 24)"
  have c: "Create h st target_sdk_version class_loader is_shared dex_path java_library_path
             java_permitted_path =
           Some (create_and_link h st1 target_sdk_version class_loader is_shared pol parent_ns)"
    using Create_reaches [OF assms(1-4)] assms(5) by simp
  note l = link_all_vendor [OF assms(8-10), of "calls st1 @ [?c]"]
  show ?thesis
    unfolding c
    by (simp add: create_and_link_def Let_def assms(6) [symmetric] assms(7) l)
qed

theorem Create_links_vendor_witness:
  "IsNil host0 (GetExportedNamespace host0 kVendorNamespaceName False) \<and>
   Create host0 fresh 30 0 False None None None = Some (Created ''classloader-namespace'', registered) \<and>
   last (calls registered) =
     CallLink ''classloader-namespace'' (GetExportedNamespace host0 kVendorNamespaceName False)
       (vendor_public_libraries host0)"
proof -
  have 1: "GetApkOriginFromDexPath None = Inr APK_ORIGIN_DEFAULT"
    by (simp add: model_defs)
  have 2: "init_step host0 fresh (resolve_library_path None) = (None, fresh)"
    by (simp add: model_defs example_defs)
  have 3: "FindNamespaceByClassLoader fresh 0 = None"
    by (simp add: model_defs example_defs)
  have 4: "FindParentNamespaceByClassLoader host0 fresh 0 = Some None"
    by (simp add: model_defs example_defs)
  show ?thesis
    using Create_links_vendor [OF 1 2 3 4 refl refl, of 30 False None]
    by (simp add: model_defs example_defs)
qed

text \<open>
  With no vendor public libraries, \<^verbatim>\<open>Create\<close> returns a namespace and has made no
  link to the vendor namespace.
\<close>

theorem Create_links_vendor_counterexample:
  "Create host_no_vendor_libraries fresh 30 0 False None None None =
     Some (Created ''classloader-namespace'',
           \<lparr>initialized = False, namespaces = [(0, ''classloader-namespace'')],
            calls =
              [CallCreate ''classloader-namespace'' [] ''/data:/mnt/expand'' None False False,
               CallLink ''classloader-namespace'' ''platform'' ''libc.so:libm.so:libext.so'',
               CallLink ''classloader-namespace'' ''runtime'' ''libicuuc.so'']\<rparr>)"
  by (simp add: model_defs example_defs)

text \<open>
  C4. A call of \<^verbatim>\<open>Create\<close> for a class loader that has a namespace
  already returns, adds no element to the list of namespaces and returns no namespace. It
  ends the process for the duplicate exactly when the dex path is not of both partitions
  (which ends the process before) and the initialization of the anonymous namespace does
  not run and fail in this call (which returns an error before the class loader is looked
  up).
\<close>

theorem Create_duplicate:
  assumes "FindNamespaceByClassLoader st class_loader = Some ns0"
  shows "\<exists>out st'.
     Create h st target_sdk_version class_loader is_shared dex_path java_library_path
       java_permitted_path = Some (out, st') \<and>
     namespaces st' = namespaces st \<and>
     (\<forall>ns. out \<noteq> Created ns) \<and>
     (out = Aborted AlreadyANamespace) =
       ((\<exists>apk_origin. GetApkOriginFromDexPath dex_path = Inr apk_origin) \<and>
        \<not> (resolve_library_path java_library_path \<noteq> [] \<and> \<not> initialized st \<and>
           fst (InitPublicNamespace h st (resolve_library_path java_library_path)) \<noteq> None))"
proof (cases "GetApkOriginFromDexPath dex_path")
  case (Inl f)
  then have "Create h st target_sdk_version class_loader is_shared dex_path java_library_path
       java_permitted_path = Some (Aborted f, st)"
    by (simp add: Create_def Let_def)
  then show ?thesis using Inl GetApkOriginFromDexPath_fatal [OF Inl] by simp
next
  case (Inr apk_origin)
  obtain r st1 where i: "init_step h st (resolve_library_path java_library_path) = (r, st1)"
    by (cases "init_step h st (resolve_library_path java_library_path)")
  have n: "namespaces st1 = namespaces st" using i by (rule init_step_namespaces)
  have f: "FindNamespaceByClassLoader st1 class_loader = Some ns0"
    using assms FindNamespaceByClassLoader_namespaces [OF n] by simp
  have e: "(r = None) =
         (\<not> (resolve_library_path java_library_path \<noteq> [] \<and> \<not> initialized st \<and>
           fst (InitPublicNamespace h st (resolve_library_path java_library_path)) \<noteq> None))"
    using i by (auto simp: init_step_def split: if_splits)
  show ?thesis
  proof (cases r)
    case None
    then have "Create h st target_sdk_version class_loader is_shared dex_path java_library_path
       java_permitted_path = Some (Aborted AlreadyANamespace, st1)"
      using Inr i f by (simp add: Create_def Let_def)
    then show ?thesis using n e None Inr by simp
  next
    case (Some err)
    then have "Create h st target_sdk_version class_loader is_shared dex_path java_library_path
       java_permitted_path = Some (Failed err, st1)"
      using Inr i by (simp add: Create_def Let_def)
    then show ?thesis using n e Some Inr by simp
  qed
qed

theorem Create_duplicate_witness:
  "FindNamespaceByClassLoader registered 0 = Some ''classloader-namespace'' \<and>
   Create host0 registered 30 0 False None None None =
     Some (Aborted AlreadyANamespace, registered)"
proof -
  have 1: "FindNamespaceByClassLoader registered 0 = Some ''classloader-namespace''"
    by (simp add: model_defs example_defs)
  show ?thesis
    using Create_duplicate [OF 1, of host0 30 False None None None] 1
    by (simp add: model_defs example_defs)
qed

text \<open>
  A class loader is registered by a call with no library path, which leaves the anonymous
  namespace uninitialized; a second call for it with a library path, on a host where the
  initialization fails, returns an error.
\<close>

theorem Create_duplicate_counterexample:
  "Create host_init_fails fresh 30 0 False None None None =
     Some (Created ''classloader-namespace'', registered) \<and>
   Create host_init_fails registered 30 0 False None (Some ''/data/app/lib'') None =
     Some (Failed dlerror,
           registered\<lparr>calls := calls registered @
             [CallInitAnonymous ''libc.so:libm.so'' (Some ''/data/app/lib'')]\<rparr>)"
  by (simp add: model_defs example_defs)

text \<open>
  C9. \<^verbatim>\<open>Initialize\<close> makes no call and changes nothing when the flag
  \<^verbatim>\<open>initialized_\<close> is set. When it is not set and every library loads, it preloads
  every default public library, in order. It never changes the flag or the list of
  namespaces, so the flag is set by \<^verbatim>\<open>InitPublicNamespace\<close> only; and a call of
  \<^verbatim>\<open>Create\<close> that starts with the flag set ends with the flag set.
\<close>

theorem Initialize_gated:
  "(initialized st \<longrightarrow> Initialize h st = (None, st)) \<and>
   (\<not> initialized st \<and> list_all (dlopen h) (Split h (default_public_libraries h) '':'') \<longrightarrow>
      Initialize h st =
        (None, st\<lparr>calls := calls st @
                     map CallDlopen (Split h (default_public_libraries h) '':'')\<rparr>)) \<and>
   initialized (snd (Initialize h st)) = initialized st \<and>
   namespaces (snd (Initialize h st)) = namespaces st \<and>
   (\<forall>out st'. initialized st \<and>
      Create h st target_sdk_version class_loader is_shared dex_path java_library_path
        java_permitted_path = Some (out, st') \<longrightarrow> initialized st')"
proof (intro conjI impI allI)
  show "initialized (snd (Initialize h st)) = initialized st"
    by (simp add: Initialize_def split: prod.splits)
  show "namespaces (snd (Initialize h st)) = namespaces st"
    by (simp add: Initialize_def split: prod.splits)
next
  assume "initialized st"
  then show "Initialize h st = (None, st)" by (simp add: Initialize_def)
next
  assume "\<not> initialized st \<and> list_all (dlopen h) (Split h (default_public_libraries h) '':'')"
  then show "Initialize h st =
        (None, st\<lparr>calls := calls st @
                     map CallDlopen (Split h (default_public_libraries h) '':'')\<rparr>)"
    by (simp add: Initialize_def preload_all)
next
  fix out st'
  assume "initialized st \<and>
      Create h st target_sdk_version class_loader is_shared dex_path java_library_path
        java_permitted_path = Some (out, st')"
  then show "initialized st'" using Create_keeps_initialized by blast
qed

theorem Initialize_gated_witness:
  "initialized bootstrapped \<and> Initialize host0 bootstrapped = (None, bootstrapped) \<and>
   \<not> initialized fresh \<and>
   list_all (dlopen host0) (Split host0 (default_public_libraries host0) '':'') \<and>
   Initialize host0 fresh =
     (None, fresh\<lparr>calls := [CallDlopen ''libc.so'', CallDlopen ''libm.so'']\<rparr>)"
  using Initialize_gated [of bootstrapped host0 30 0 False None None None]
    Initialize_gated [of fresh host0 30 0 False None None None]
  by (simp add: example_defs)

text \<open>
  Two calls of \<^verbatim>\<open>Initialize\<close> in a row, before any call of \<^verbatim>\<open>Create\<close>: the
  second one preloads the two libraries again.
\<close>

theorem Initialize_gated_counterexample:
  "Initialize host0 fresh =
     (None, \<lparr>initialized = False, namespaces = [],
             calls = [CallDlopen ''libc.so'', CallDlopen ''libm.so'']\<rparr>) \<and>
   Initialize host0
     \<lparr>initialized = False, namespaces = [],
      calls = [CallDlopen ''libc.so'', CallDlopen ''libm.so'']\<rparr> =
     (None, \<lparr>initialized = False, namespaces = [],
             calls = [CallDlopen ''libc.so'', CallDlopen ''libm.so'',
                      CallDlopen ''libc.so'', CallDlopen ''libm.so'']\<rparr>)"
  by (simp add: model_defs example_defs)

end
